theory Spec2Isabelle
  imports Main "HOL-Library.Word" "HOL-Library.Signed_Division"
begin

section \<open>The LogDNA client: data model\<close>

text \<open>
  The embedding follows \<^verbatim>\<open>logdna.go\<close>. Go's \<^verbatim>\<open>int\<close> and \<^verbatim>\<open>int64\<close> are 64-bit
  two's complement words (the width of \<^verbatim>\<open>int\<close> on the 64-bit platforms Go targets):
  \<open>+\<close> and \<open>*\<close> wrap, \<open>sint\<close> reads the signed value. A Go \<^verbatim>\<open>error\<close> result is an
  \<open>error option\<close>, \<open>None\<close> being \<^verbatim>\<open>nil\<close>. A run that ends in \<^verbatim>\<open>make\<close> is a value of
  \<open>go_panic\<close>: the panic \<^verbatim>\<open>makechan: size out of range\<close>, or the runtime's fatal
  \<^verbatim>\<open>out of memory\<close>. Memory exhaustion anywhere else is outside the model.
\<close>

type_synonym go_int = "64 word"
type_synonym int64 = "64 word"

datatype error = Error string

datatype go_panic = MakechanSizeOutOfRange | OutOfMemory

text \<open>
  What \<^verbatim>\<open>make(chan *entry, n)\<close> takes from the Go runtime. \<^verbatim>\<open>makechan\<close> panics when
  \<^verbatim>\<open>n < 0\<close> or when \<^verbatim>\<open>elemsize*n\<close> overflows or exceeds \<^verbatim>\<open>maxAlloc - hchanSize\<close>; for the
  8-byte elements of this channel that is a largest capacity, \<open>max_chan_cap\<close>: on
  linux/amd64, where \<^verbatim>\<open>maxAlloc\<close> is \<open>2 ^ 48\<close>, and with a channel header of 96 bytes it is
  \<open>(2 ^ 48 - 96) div 8\<close>. Past that test the buffer is allocated, which the machine's memory
  allows or not: \<open>can_alloc\<close>.
\<close>

record runtime =
  max_chan_cap :: nat
  can_alloc :: "nat \<Rightarrow> bool"

text \<open>\<^verbatim>\<open>type Config struct\<close>\<close>

record Config =
  APIKey :: string
  LogFile :: string
  Hostname :: string
  FlushLimit :: go_int

text \<open>
  \<^verbatim>\<open>time.Time\<close>: an instant, held as its (unbounded) number of nanoseconds since the Unix
  epoch. \<^verbatim>\<open>UnixNano\<close> computes \<^verbatim>\<open>sec*1e9 + nsec\<close> in \<^verbatim>\<open>int64\<close>, so it wraps for
  instants that an \<^verbatim>\<open>int64\<close> cannot hold.
\<close>

record time =
  nanos :: int

definition UnixNano :: "time \<Rightarrow> int64" where
  "UnixNano tm = word_of_int (nanos tm)"

text \<open>\<^verbatim>\<open>time.Time{}\<close>: January 1, year 1, 00:00:00 UTC, which is 62135596800 seconds before the epoch.\<close>

definition zero_time :: time where
  "zero_time = \<lparr>nanos = - 62135596800 * 1000000000\<rparr>"

text \<open>\<^verbatim>\<open>type entry struct\<close>\<close>

record entry =
  t :: time
  s :: string

text \<open>\<^verbatim>\<open>type logLineJSON struct\<close> and \<^verbatim>\<open>type payloadJSON struct\<close>\<close>

record logLineJSON =
  Timestamp :: int64
  Line :: string
  File :: string

record payloadJSON =
  Lines :: "logLineJSON list"

text \<open>
  \<^verbatim>\<open>url.URL\<close>, with the parts \<^verbatim>\<open>makeIngestURL\<close> sets: the parsed base, the user and the
  query values (\<^verbatim>\<open>Values.Encode\<close> orders them by key; percent-escaping is the library's).
\<close>

record url =
  Base :: string
  User :: string
  RawQuery :: "(string \<times> string) list"

text \<open>
  A buffered channel \<^verbatim>\<open>chan *entry\<close>: the queued values, oldest first, and the capacity.
  A send on a full channel and a receive on an empty one block: the result \<open>None\<close>.
  (The hand-over of a value on a channel of capacity 0 to a receiver that is already waiting
  is not modelled; \<open>NewClient\<close> makes such a channel for the limit \<open>- (2 ^ 63)\<close> only.)
\<close>

record 'a chan =
  chan_buf :: "'a list"
  chan_cap :: nat

definition make_chan :: "runtime \<Rightarrow> go_int \<Rightarrow> go_panic + 'a chan" where
  "make_chan rt n =
     (if n <s 0 \<or> int (max_chan_cap rt) < sint n then Inl MakechanSizeOutOfRange
      else if \<not> can_alloc rt (nat (sint n)) then Inl OutOfMemory
      else Inr \<lparr>chan_buf = [], chan_cap = nat (sint n)\<rparr>)"

definition chan_send :: "'a \<Rightarrow> 'a chan \<Rightarrow> 'a chan option" where
  "chan_send x ch =
     (if length (chan_buf ch) < chan_cap ch then Some (ch\<lparr>chan_buf := chan_buf ch @ [x]\<rparr>)
      else None)"

definition chan_recv :: "'a chan \<Rightarrow> ('a \<times> 'a chan) option" where
  "chan_recv ch =
     (case chan_buf ch of [] \<Rightarrow> None | x # xs \<Rightarrow> Some (x, ch\<lparr>chan_buf := xs\<rparr>))"

text \<open>\<^verbatim>\<open>type Client struct\<close>\<close>

record Client =
  config :: Config
  payload :: payloadJSON
  apiURL :: url
  q :: "entry chan"

subsection \<open>The JSON document of a payload\<close>

text \<open>
  The document \<^verbatim>\<open>json.Marshal\<close> builds from the struct tags of \<^verbatim>\<open>payloadJSON\<close> and
  \<^verbatim>\<open>logLineJSON\<close>. A nil slice is \<^verbatim>\<open>null\<close>; in this program a slice without elements is nil.
\<close>

datatype json = JNull | JNum int | JString string | JArray "json list" | JObject "(string \<times> json) list"

definition logLine_json :: "logLineJSON \<Rightarrow> json" where
  "logLine_json l =
     JObject [(''timestamp'', JNum (sint (Timestamp l))),
              (''line'', JString (Line l)),
              (''file'', JString (File l))]"

definition payload_json :: "payloadJSON \<Rightarrow> json" where
  "payload_json p =
     JObject [(''lines'', if Lines p = [] then JNull else JArray (map logLine_json (Lines p)))]"

subsection \<open>The outside world\<close>

text \<open>
  What the client does to the world: the lines it prints and the HTTP requests it issues, in
  order. What the world does to the client is the environment: the serialiser of a JSON
  document, which may fail, and the outcome of the \<open>n\<close>-th \<^verbatim>\<open>http.Post\<close> of the run, which
  is a transport error or a response.
\<close>

datatype printed = PrintlnError error | PrintlnEntry time string

record request =
  req_url :: url
  contentType :: string
  body :: string

record response =
  StatusCode :: int

record env =
  json_Marshal :: "json \<Rightarrow> error + string"
  http_Post :: "nat \<Rightarrow> request \<Rightarrow> error + response"

record world =
  client :: Client
  stdout :: "printed list"
  posts :: "request list"

section \<open>The operations\<close>

text \<open>\<^verbatim>\<open>const IngestBaseURL\<close>, \<^verbatim>\<open>const DefaultFlushLimit\<close>\<close>

definition IngestBaseURL :: string where
  "IngestBaseURL = ''https://logs.logdna.com/logs/ingest''"

definition DefaultFlushLimit :: go_int where
  "DefaultFlushLimit = 5000"

text \<open>\<^verbatim>\<open>strconv.FormatInt(i, 10)\<close>\<close>

function digits :: "int \<Rightarrow> string" where
  "digits n =
     (if n < 10 then [char_of (48 + n)] else digits (n div 10) @ [char_of (48 + n mod 10)])"
  by pat_completeness auto
termination
  by (relation "measure nat") auto

declare digits.simps [simp del]

definition FormatInt :: "int64 \<Rightarrow> string" where
  "FormatInt i = (if sint i < 0 then CHR ''-'' # digits (- sint i) else digits (sint i))"

text \<open>\<^verbatim>\<open>func makeIngestURL(cfg Config) url.URL\<close>\<close>

definition makeIngestURL :: "Config \<Rightarrow> url" where
  "makeIngestURL cfg =
     \<lparr>Base = IngestBaseURL,
      User = APIKey cfg,
      RawQuery = [(''hostname'', Hostname cfg), (''now'', FormatInt (UnixNano zero_time))]\<rparr>"

text \<open>
  \<^verbatim>\<open>func NewClient(cfg Config) *Client\<close>, on the runtime \<open>rt\<close>. The product
  \<^verbatim>\<open>10*cfg.FlushLimit\<close> is computed in \<^verbatim>\<open>int\<close> and wraps; \<^verbatim>\<open>make\<close> panics on a capacity that is
  negative or too large. The goroutine \<open>NewClient\<close> starts is \<open>worker_iter\<close> below, run on
  the world that holds the returned client.
\<close>

definition NewClient :: "runtime \<Rightarrow> Config \<Rightarrow> go_panic + Client" where
  "NewClient rt cfg0 =
     (let cfg = (if FlushLimit cfg0 = 0 then cfg0\<lparr>FlushLimit := DefaultFlushLimit\<rparr> else cfg0)
      in case make_chan rt (10 * FlushLimit cfg) of
           Inl p \<Rightarrow> Inl p
         | Inr ch \<Rightarrow>
             Inr \<lparr>config = cfg, payload = \<lparr>Lines = []\<rparr>, apiURL = makeIngestURL cfg, q = ch\<rparr>)"

text \<open>\<^verbatim>\<open>func (c *Client) Size() int\<close>\<close>

definition Size :: "Client \<Rightarrow> nat" where
  "Size c = length (Lines (payload c))"

text \<open>
  \<^verbatim>\<open>func (c *Client) Flush() error\<close>. Every call of \<^verbatim>\<open>http.Post\<close> is recorded in \<open>posts\<close>,
  answered or not. The response is only closed (the deferred \<^verbatim>\<open>resp.Body.Close()\<close>), which
  changes nothing here: its status code is never read.
\<close>

definition Flush :: "env \<Rightarrow> world \<Rightarrow> world \<times> error option" where
  "Flush ev w =
     (let c = client w in
      if Size c = 0 then (w, None)
      else case json_Marshal ev (payload_json (payload c)) of
             Inl err \<Rightarrow> (w, Some err)
           | Inr jsonPayload \<Rightarrow>
               (let rq = \<lparr>req_url = apiURL c, contentType = ''application/json'',
                          body = jsonPayload\<rparr>;
                    w1 = w\<lparr>posts := posts w @ [rq]\<rparr>
                in case http_Post ev (length (posts w)) rq of
                     Inl err \<Rightarrow> (w1, Some err)
                   | Inr resp \<Rightarrow> (w1\<lparr>client := c\<lparr>payload := \<lparr>Lines = []\<rparr>\<rparr>\<rparr>, None)))"

text \<open>\<^verbatim>\<open>func (c *Client) Close() error\<close>\<close>

definition Close :: "env \<Rightarrow> world \<Rightarrow> world \<times> error option" where
  "Close ev w = Flush ev w"

text \<open>
  Go's \<^verbatim>\<open>/\<close> on \<^verbatim>\<open>int64\<close>: the quotient of the signed values, truncated towards zero
  (\<open>sdiv\<close> on \<open>int\<close>), in 64 bits.
\<close>

definition div_int64 :: "int64 \<Rightarrow> int64 \<Rightarrow> int64" where
  "div_int64 a b = word_of_int (sint a sdiv sint b)"

text \<open>The struct literal \<^verbatim>\<open>logLineJSON{...}\<close> that \<^verbatim>\<open>log\<close> builds.\<close>

definition new_logLine :: "Client \<Rightarrow> time \<Rightarrow> string \<Rightarrow> logLineJSON" where
  "new_logLine c tm msg =
     \<lparr>Timestamp = div_int64 (UnixNano tm) 1000000, Line = msg, File = LogFile (config c)\<rparr>"

text \<open>\<^verbatim>\<open>func (c *Client) log(t time.Time, msg string) error\<close>\<close>

definition log :: "env \<Rightarrow> time \<Rightarrow> string \<Rightarrow> world \<Rightarrow> world \<times> error option" where
  "log ev tm msg w =
     (let c = client w;
          logLine = new_logLine c tm msg;
          c1 = c\<lparr>payload := (payload c)\<lparr>Lines := Lines (payload c) @ [logLine]\<rparr>\<rparr>;
          w1 = w\<lparr>client := c1\<rparr>
      in if sint (FlushLimit (config c1)) \<le> int (Size c1) then Flush ev w1 else (w1, None))"

text \<open>
  \<^verbatim>\<open>func (c *Client) Log(t time.Time, msg string)\<close>: prints, then sends on the channel.
  It has no result; \<open>None\<close> is the call blocked on a full channel.
\<close>

definition Log :: "time \<Rightarrow> string \<Rightarrow> world \<Rightarrow> world option" where
  "Log tm msg w =
     (let w1 = w\<lparr>stdout := stdout w @ [PrintlnEntry tm msg]\<rparr>
      in case chan_send \<lparr>t = tm, s = msg\<rparr> (q (client w1)) of
           None \<Rightarrow> None
         | Some ch \<Rightarrow> Some (w1\<lparr>client := (client w1)\<lparr>q := ch\<rparr>\<rparr>))"

text \<open>
  One round of the loop in the goroutine of \<^verbatim>\<open>NewClient\<close>: receive an entry, \<^verbatim>\<open>log\<close> it
  and, when that returns an error, print the error and \<^verbatim>\<open>Log\<close> the entry again. \<open>None\<close>
  is the goroutine blocked, on the receive or on the send of \<^verbatim>\<open>Log\<close>. In \<open>worker_iter\<close>
  the round runs with no call of another goroutine in between.
\<close>

definition worker_iter :: "env \<Rightarrow> world \<Rightarrow> world option" where
  "worker_iter ev w =
     (case chan_recv (q (client w)) of
        None \<Rightarrow> None
      | Some (e, ch) \<Rightarrow>
          (case log ev (t e) (s e) (w\<lparr>client := (client w)\<lparr>q := ch\<rparr>\<rparr>) of
             (w1, None) \<Rightarrow> Some w1
           | (w1, Some err) \<Rightarrow>
               Log (t e) (s e) (w1\<lparr>stdout := stdout w1 @ [PrintlnError err]\<rparr>)))"

text \<open>
  The round up to the point where the worker calls \<^verbatim>\<open>client.Log\<close>: the world then, and the
  entry the worker is about to send again, if \<^verbatim>\<open>log\<close> returned an error. Calls of other
  goroutines that complete between the receive and the worker's send, a producer's \<^verbatim>\<open>Log\<close>
  during the POST for one, act on the world between \<open>worker_take\<close> and that \<open>Log\<close>.
\<close>

definition worker_take :: "env \<Rightarrow> world \<Rightarrow> (world \<times> entry option) option" where
  "worker_take ev w =
     (case chan_recv (q (client w)) of
        None \<Rightarrow> None
      | Some (e, ch) \<Rightarrow>
          (case log ev (t e) (s e) (w\<lparr>client := (client w)\<lparr>q := ch\<rparr>\<rparr>) of
             (w1, None) \<Rightarrow> Some (w1, None)
           | (w1, Some err) \<Rightarrow> Some (w1\<lparr>stdout := stdout w1 @ [PrintlnError err]\<rparr>, Some e)))"

text \<open>
  The calls other goroutines can make on the client, each run to its return: the exported
  methods. None of them receives from the queue. A \<^verbatim>\<open>Log\<close> that blocks does not return:
  \<open>None\<close>.
\<close>

datatype call = CallLog time string | CallSize | CallFlush | CallClose

fun call_step :: "env \<Rightarrow> call \<Rightarrow> world \<Rightarrow> world option" where
  "call_step ev (CallLog tm msg) w = Log tm msg w"
| "call_step ev CallSize w = Some w"
| "call_step ev CallFlush w = Some (fst (Flush ev w))"
| "call_step ev CallClose w = Some (fst (Close ev w))"

fun calls :: "env \<Rightarrow> call list \<Rightarrow> world \<Rightarrow> world option" where
  "calls ev [] w = Some w"
| "calls ev (c # cs) w = (case call_step ev c w of None \<Rightarrow> None | Some w1 \<Rightarrow> calls ev cs w1)"

text \<open>The first \<open>n\<close> rounds of the loop, which has no exit.\<close>

fun worker_iters :: "env \<Rightarrow> nat \<Rightarrow> world \<Rightarrow> world option" where
  "worker_iters ev 0 w = Some w"
| "worker_iters ev (Suc n) w =
     (case worker_iter ev w of None \<Rightarrow> None | Some w1 \<Rightarrow> worker_iters ev n w1)"

section \<open>An example environment\<close>

text \<open>
  A concrete environment and concrete worlds, on which the closed instances below are
  evaluated. The serialiser prints a document without escaping; the \<open>n\<close>-th POST is answered
  with the given status code when \<open>up n\<close> holds and fails with a transport error otherwise.
\<close>

fun join :: "string \<Rightarrow> string list \<Rightarrow> string" where
  "join sep [] = []"
| "join sep [x] = x"
| "join sep (x # y # ys) = x @ sep @ join sep (y # ys)"

fun render_json :: "json \<Rightarrow> string" where
  "render_json JNull = ''null''"
| "render_json (JNum i) = (if i < 0 then CHR ''-'' # digits (- i) else digits i)"
| "render_json (JString x) = CHR 0x22 # x @ [CHR 0x22]"
| "render_json (JArray xs) = ''['' @ join '','' (map render_json xs) @ '']''"
| "render_json (JObject kvs) =
     ''{'' @ join '','' (map (\<lambda>kv. CHR 0x22 # fst kv @ [CHR 0x22] @ '':'' @ render_json (snd kv)) kvs)
       @ ''}''"

definition demo_env :: "(nat \<Rightarrow> bool) \<Rightarrow> int \<Rightarrow> env" where
  "demo_env up code =
     \<lparr>json_Marshal = (\<lambda>j. Inr (render_json j)),
      http_Post = (\<lambda>n rq. if up n then Inr \<lparr>StatusCode = code\<rparr>
                           else Inl (Error ''connection refused''))\<rparr>"

text \<open>
  linux/amd64 as above, \<open>(2 ^ 48 - 96) div 8 = 35184372088820\<close>, with memory for every
  capacity \<^verbatim>\<open>makechan\<close> accepts.
\<close>

definition demo_runtime :: runtime where
  "demo_runtime = \<lparr>max_chan_cap = 35184372088820, can_alloc = (\<lambda>n. True)\<rparr>"

definition demo_config :: "go_int \<Rightarrow> Config" where
  "demo_config n = \<lparr>APIKey = ''key'', LogFile = ''app.log'', Hostname = ''host'', FlushLimit = n\<rparr>"

definition demo_client :: "go_int \<Rightarrow> logLineJSON list \<Rightarrow> entry list \<Rightarrow> Client" where
  "demo_client n ls es =
     \<lparr>config = demo_config n, payload = \<lparr>Lines = ls\<rparr>, apiURL = makeIngestURL (demo_config n),
      q = \<lparr>chan_buf = es, chan_cap = nat (sint (10 * n))\<rparr>\<rparr>"

definition demo_line :: "int \<Rightarrow> string \<Rightarrow> logLineJSON" where
  "demo_line ms msg = \<lparr>Timestamp = word_of_int ms, Line = msg, File = ''app.log''\<rparr>"

definition demo_entry :: "int \<Rightarrow> string \<Rightarrow> entry" where
  "demo_entry ns msg = \<lparr>t = \<lparr>nanos = ns\<rparr>, s = msg\<rparr>"

definition demo_request :: "go_int \<Rightarrow> logLineJSON list \<Rightarrow> request" where
  "demo_request n ls =
     \<lparr>req_url = makeIngestURL (demo_config n), contentType = ''application/json'',
      body = render_json (payload_json \<lparr>Lines = ls\<rparr>)\<rparr>"

definition demo_world :: "go_int \<Rightarrow> logLineJSON list \<Rightarrow> entry list \<Rightarrow> world" where
  "demo_world n ls es = \<lparr>client = demo_client n ls es, stdout = [], posts = []\<rparr>"

definition env_up :: env where
  "env_up = demo_env (\<lambda>n. True) 200"

definition env_500 :: env where
  "env_500 = demo_env (\<lambda>n. True) 500"

definition env_down :: env where
  "env_down = demo_env (\<lambda>n. False) 200"

text \<open>The first POST fails, every later one is answered.\<close>

definition env_flaky :: env where
  "env_flaky = demo_env (\<lambda>n. 0 < n) 200"

text \<open>
  Three worlds of one run, with a limit of 1 and so a queue of capacity 10, the endpoint
  unreachable: the queue full with \<open>a\<close> and nine entries \<open>b\<close>; the worker has taken \<open>a\<close>,
  its flush has failed and it has printed the error; a producer's \<open>Log\<close> of \<open>c\<close> has taken
  the free place.
\<close>

definition jam_start :: world where
  "jam_start = demo_world 1 [] (demo_entry 1000000 ''a'' # replicate 9 (demo_entry 2000000 ''b''))"

definition jam_taken :: world where
  "jam_taken =
     (demo_world 1 [demo_line 1 ''a''] (replicate 9 (demo_entry 2000000 ''b'')))
       \<lparr>stdout := [PrintlnError (Error ''connection refused'')],
        posts := [demo_request 1 [demo_line 1 ''a'']]\<rparr>"

definition jam_full :: world where
  "jam_full =
     (demo_world 1 [demo_line 1 ''a'']
        (replicate 9 (demo_entry 2000000 ''b'') @ [demo_entry 3000000 ''c'']))
       \<lparr>stdout := [PrintlnError (Error ''connection refused''),
                   PrintlnEntry \<lparr>nanos = 3000000\<rparr> ''c''],
        posts := [demo_request 1 [demo_line 1 ''a'']]\<rparr>"

section \<open>Auxiliary facts\<close>

lemma payload_Lines_update [simp]: "p\<lparr>Lines := ls\<rparr> = \<lparr>Lines = ls\<rparr>"
  for p :: payloadJSON
  by (cases p) simp

lemma entry_eta [simp]: "\<lparr>t = t e, s = s e\<rparr> = e"
  for e :: entry
  by (cases e) simp

lemma new_logLine_upd [simp]:
  "new_logLine (c\<lparr>q := ch\<rparr>) = new_logLine c"
  "new_logLine (c\<lparr>payload := p\<rparr>) = new_logLine c"
  by (simp_all add: new_logLine_def fun_eq_iff)

lemma Size_upd [simp]:
  "Size (c\<lparr>q := ch\<rparr>) = Size c"
  "Size (c\<lparr>payload := p\<rparr>) = length (Lines p)"
  by (simp_all add: Size_def)

subsection \<open>Arithmetic in 64 bits\<close>

lemma sdiv_million_bounds:
  fixes k :: int
  assumes "- (2 ^ 63) \<le> k" "k < 2 ^ 63"
  shows "- (2 ^ 63) \<le> k sdiv 1000000" "k sdiv 1000000 < 2 ^ 63"
proof -
  have "k sdiv 1000000 = (if k < 0 then - ((- k) div 1000000) else k div 1000000)"
    by (simp add: signed_divide_int_def sgn_if)
  moreover have "0 \<le> k \<Longrightarrow> k div 1000000 \<le> k" "0 \<le> k \<Longrightarrow> 0 \<le> k div 1000000"
    by linarith+
  moreover have "k < 0 \<Longrightarrow> (- k) div 1000000 \<le> - k" "k < 0 \<Longrightarrow> 0 \<le> (- k) div 1000000"
    by linarith+
  ultimately show "- (2 ^ 63) \<le> k sdiv 1000000" "k sdiv 1000000 < 2 ^ 63"
    using assms by (auto split: if_splits)
qed

lemma sint_div_int64:
  "sint (div_int64 a 1000000) = sint a sdiv 1000000"
proof -
  have "- (2 ^ 63) \<le> sint a" "sint a < 2 ^ 63"
    using sint_ge [of a] sint_lt [of a] by simp_all
  then have "- (2 ^ 63) \<le> sint a sdiv 1000000 \<and> sint a sdiv 1000000 < 2 ^ 63"
    using sdiv_million_bounds by blast
  then show ?thesis
    by (simp add: div_int64_def sint_sbintrunc' signed_take_bit_int_eq_self)
qed

lemma sint_UnixNano:
  "- (2 ^ 63) \<le> nanos tm \<Longrightarrow> nanos tm < 2 ^ 63 \<Longrightarrow> sint (UnixNano tm) = nanos tm"
  by (simp add: UnixNano_def sint_sbintrunc' signed_take_bit_int_eq_self)

lemma NewClient_cases:
  "NewClient rt cfg =
     (if 10 * (if FlushLimit cfg = 0 then 5000 else FlushLimit cfg) <s 0
         \<or> int (max_chan_cap rt) < sint (10 * (if FlushLimit cfg = 0 then 5000 else FlushLimit cfg))
      then Inl MakechanSizeOutOfRange
      else if \<not> can_alloc rt (nat (sint (10 * (if FlushLimit cfg = 0 then 5000 else FlushLimit cfg))))
      then Inl OutOfMemory
      else Inr \<lparr>config = cfg\<lparr>FlushLimit := (if FlushLimit cfg = 0 then 5000 else FlushLimit cfg)\<rparr>,
                payload = \<lparr>Lines = []\<rparr>,
                apiURL = makeIngestURL (cfg\<lparr>FlushLimit := (if FlushLimit cfg = 0 then 5000 else FlushLimit cfg)\<rparr>),
                q = \<lparr>chan_buf = [],
                     chan_cap = nat (sint (10 * (if FlushLimit cfg = 0 then 5000 else FlushLimit cfg)))\<rparr>\<rparr>)"
  by (simp add: NewClient_def make_chan_def DefaultFlushLimit_def Let_def)

lemma sint_times_ten:
  fixes n :: go_int
  assumes "- 922337203685477580 \<le> sint n" "sint n \<le> 922337203685477580"
  shows "sint (10 * n) = 10 * sint n"
proof -
  have "sint (10 * n) = signed_take_bit 63 (10 * sint n)"
    by (simp add: sint_word_mult)
  also have "\<dots> = 10 * sint n"
    using assms by (intro signed_take_bit_int_eq_self) simp_all
  finally show ?thesis .
qed

subsection \<open>The three ways through \<open>Flush\<close>\<close>

lemma Flush_empty: "Size (client w) = 0 \<Longrightarrow> Flush ev w = (w, None)"
  by (simp add: Flush_def)

lemma Flush_marshal_fails:
  "Size (client w) \<noteq> 0 \<Longrightarrow> json_Marshal ev (payload_json (payload (client w))) = Inl err \<Longrightarrow>
   Flush ev w = (w, Some err)"
  by (simp add: Flush_def)

lemma Flush_post_fails:
  "Size (client w) \<noteq> 0 \<Longrightarrow> json_Marshal ev (payload_json (payload (client w))) = Inr b \<Longrightarrow>
   http_Post ev (length (posts w))
     \<lparr>req_url = apiURL (client w), contentType = ''application/json'', body = b\<rparr> = Inl err \<Longrightarrow>
   Flush ev w =
     (w\<lparr>posts := posts w @
          [\<lparr>req_url = apiURL (client w), contentType = ''application/json'', body = b\<rparr>]\<rparr>,
      Some err)"
  by (simp add: Flush_def Let_def)

lemma Flush_post_responds:
  "Size (client w) \<noteq> 0 \<Longrightarrow> json_Marshal ev (payload_json (payload (client w))) = Inr b \<Longrightarrow>
   http_Post ev (length (posts w))
     \<lparr>req_url = apiURL (client w), contentType = ''application/json'', body = b\<rparr> = Inr resp \<Longrightarrow>
   Flush ev w =
     (w\<lparr>posts := posts w @
          [\<lparr>req_url = apiURL (client w), contentType = ''application/json'', body = b\<rparr>],
        client := (client w)\<lparr>payload := \<lparr>Lines = []\<rparr>\<rparr>\<rparr>,
      None)"
  by (simp add: Flush_def Let_def)

lemma Flush_fail_client:
  "Flush ev w = (w', Some err) \<Longrightarrow> client w' = client w \<and> stdout w' = stdout w"
  by (auto simp: Flush_def Let_def split: if_splits sum.splits)

lemma Flush_fail_cause:
  assumes "Flush ev w = (w', Some err)"
  shows "Size (client w) \<noteq> 0 \<and>
    (json_Marshal ev (payload_json (payload (client w))) = Inl err \<and> w' = w
     \<or> (\<exists>b. json_Marshal ev (payload_json (payload (client w))) = Inr b
           \<and> http_Post ev (length (posts w))
                \<lparr>req_url = apiURL (client w), contentType = ''application/json'', body = b\<rparr>
               = Inl err
           \<and> w' = w\<lparr>posts := posts w @
                [\<lparr>req_url = apiURL (client w), contentType = ''application/json'', body = b\<rparr>]\<rparr>))"
  using assms by (auto simp: Flush_def Let_def split: if_splits sum.splits)

lemma Flush_ok_cause:
  assumes "Flush ev w = (w', None)" and "Size (client w) \<noteq> 0"
  shows "\<exists>b resp. json_Marshal ev (payload_json (payload (client w))) = Inr b
           \<and> http_Post ev (length (posts w))
                \<lparr>req_url = apiURL (client w), contentType = ''application/json'', body = b\<rparr>
               = Inr resp
           \<and> w' = w\<lparr>posts := posts w @
                [\<lparr>req_url = apiURL (client w), contentType = ''application/json'', body = b\<rparr>],
                client := (client w)\<lparr>payload := \<lparr>Lines = []\<rparr>\<rparr>\<rparr>"
  using assms by (auto simp: Flush_def Let_def split: if_splits sum.splits)

lemma Flush_frame:
  "q (client (fst (Flush ev w))) = q (client w)"
  "config (client (fst (Flush ev w))) = config (client w)"
  "apiURL (client (fst (Flush ev w))) = apiURL (client w)"
  "stdout (fst (Flush ev w)) = stdout w"
  by (simp_all add: Flush_def Let_def split: sum.splits)

subsection \<open>\<open>log\<close> and the rounds of the worker\<close>

lemma log_unfold:
  "log ev tm msg w =
     (if sint (FlushLimit (config (client w))) \<le> int (Size (client w)) + 1
      then Flush ev (w\<lparr>client := (client w)\<lparr>payload :=
               \<lparr>Lines = Lines (payload (client w)) @ [new_logLine (client w) tm msg]\<rparr>\<rparr>\<rparr>)
      else (w\<lparr>client := (client w)\<lparr>payload :=
               \<lparr>Lines = Lines (payload (client w)) @ [new_logLine (client w) tm msg]\<rparr>\<rparr>\<rparr>, None))"
  by (simp add: log_def Let_def Size_def)

lemma worker_iter_unfold:
  assumes "chan_buf (q (client w)) = e # rest"
  shows "worker_iter ev w =
     (case log ev (t e) (s e) (w\<lparr>client := (client w)\<lparr>q := (q (client w))\<lparr>chan_buf := rest\<rparr>\<rparr>\<rparr>) of
        (w1, None) \<Rightarrow> Some w1
      | (w1, Some err) \<Rightarrow> Log (t e) (s e) (w1\<lparr>stdout := stdout w1 @ [PrintlnError err]\<rparr>))"
  using assms by (simp add: worker_iter_def chan_recv_def)

lemma Log_unfold:
  "Log tm msg w =
     (if length (chan_buf (q (client w))) < chan_cap (q (client w))
      then Some (w\<lparr>stdout := stdout w @ [PrintlnEntry tm msg],
                   client := (client w)\<lparr>q := (q (client w))
                     \<lparr>chan_buf := chan_buf (q (client w)) @ [\<lparr>t = tm, s = msg\<rparr>]\<rparr>\<rparr>\<rparr>)
      else None)"
  by (simp add: Log_def chan_send_def Let_def)

lemma worker_iter_below:
  assumes "chan_buf (q (client w)) = e # es"
    and "int (Size (client w)) + 1 < sint (FlushLimit (config (client w)))"
  shows "worker_iter ev w =
     Some (w\<lparr>client := (client w)
        \<lparr>q := (q (client w))\<lparr>chan_buf := es\<rparr>,
         payload := \<lparr>Lines = Lines (payload (client w)) @ [new_logLine (client w) (t e) (s e)]\<rparr>\<rparr>\<rparr>)"
  using assms by (simp add: worker_iter_unfold log_unfold)

lemma worker_iters_below:
  "chan_buf (q (client w)) = es @ rest \<Longrightarrow>
   int (Size (client w)) + int (length es) < sint (FlushLimit (config (client w))) \<Longrightarrow>
   worker_iters ev (length es) w =
     Some (w\<lparr>client := (client w)
        \<lparr>q := (q (client w))\<lparr>chan_buf := rest\<rparr>,
         payload := \<lparr>Lines = Lines (payload (client w))
                       @ map (\<lambda>e. new_logLine (client w) (t e) (s e)) es\<rparr>\<rparr>\<rparr>)"
proof (induction es arbitrary: w)
  case Nil
  then show ?case by simp
next
  case (Cons e es)
  let ?w1 = "w\<lparr>client := (client w)
        \<lparr>q := (q (client w))\<lparr>chan_buf := es @ rest\<rparr>,
         payload := \<lparr>Lines = Lines (payload (client w)) @ [new_logLine (client w) (t e) (s e)]\<rparr>\<rparr>\<rparr>"
  have step: "worker_iter ev w = Some ?w1"
    using Cons.prems by (intro worker_iter_below) simp_all
  have "worker_iters ev (length es) ?w1 = Some (?w1\<lparr>client := (client ?w1)
        \<lparr>q := (q (client ?w1))\<lparr>chan_buf := rest\<rparr>,
         payload := \<lparr>Lines = Lines (payload (client ?w1))
                       @ map (\<lambda>e. new_logLine (client ?w1) (t e) (s e)) es\<rparr>\<rparr>\<rparr>)"
    using Cons.prems by (intro Cons.IH) (simp_all add: Size_def)
  then show ?case
    by (simp add: step)
qed


lemma worker_iters_add:
  "worker_iters ev m w = Some w1 \<Longrightarrow> worker_iters ev (m + n) w = worker_iters ev n w1"
  by (induction m arbitrary: w) (auto split: option.splits)

lemma worker_take_unfold:
  assumes "chan_buf (q (client w)) = e # rest"
  shows "worker_take ev w =
     (case log ev (t e) (s e) (w\<lparr>client := (client w)\<lparr>q := (q (client w))\<lparr>chan_buf := rest\<rparr>\<rparr>\<rparr>) of
        (w1, None) \<Rightarrow> Some (w1, None)
      | (w1, Some err) \<Rightarrow> Some (w1\<lparr>stdout := stdout w1 @ [PrintlnError err]\<rparr>, Some e))"
  using assms by (simp add: worker_take_def chan_recv_def)

text \<open>The round is \<open>worker_take\<close> and then, for a failed entry, the worker's \<open>Log\<close>.\<close>

lemma worker_iter_take:
  "worker_iter ev w =
     (case worker_take ev w of
        None \<Rightarrow> None
      | Some (w1, None) \<Rightarrow> Some w1
      | Some (w1, Some e) \<Rightarrow> Log (t e) (s e) w1)"
  by (simp add: worker_iter_def worker_take_def split: option.splits prod.splits)

text \<open>No call of another goroutine takes anything out of a full queue.\<close>

lemma calls_full_queue:
  "chan_cap (q (client w)) \<le> length (chan_buf (q (client w))) \<Longrightarrow> calls ev cs w = Some w' \<Longrightarrow>
   q (client w') = q (client w)"
proof (induction cs arbitrary: w)
  case Nil
  then show ?case by simp
next
  case (Cons c cs)
  from Cons.prems(2) obtain w1 where
    step: "call_step ev c w = Some w1" and rest: "calls ev cs w1 = Some w'"
    by (auto split: option.splits)
  have "q (client w1) = q (client w)"
  proof (cases c)
    case (CallLog tm msg)
    with step Cons.prems(1) show ?thesis
      by (simp add: Log_unfold)
  next
    case CallSize
    with step show ?thesis by auto
  next
    case CallFlush
    with step show ?thesis by (auto simp: Flush_frame)
  next
    case CallClose
    with step show ?thesis by (auto simp: Close_def Flush_frame)
  qed
  with Cons.IH [OF _ rest] Cons.prems(1) show ?case
    by simp
qed

text \<open>A round whose flush fails: the line stays in the buffer and the entry is queued again.\<close>

lemma worker_iter_flush_fails:
  assumes buf: "chan_buf (q (client w)) = e # rest"
    and room: "length (e # rest) \<le> chan_cap (q (client w))"
    and lim: "sint (FlushLimit (config (client w))) \<le> int (Size (client w)) + 1"
    and fl: "Flush ev (w\<lparr>client := (client w)\<lparr>q := (q (client w))\<lparr>chan_buf := rest\<rparr>,
               payload := \<lparr>Lines = Lines (payload (client w))
                             @ [new_logLine (client w) (t e) (s e)]\<rparr>\<rparr>\<rparr>) = (w1, Some err)"
  shows "worker_iter ev w =
     Some (w\<lparr>posts := posts w1,
             stdout := stdout w @ [PrintlnError err, PrintlnEntry (t e) (s e)],
             client := (client w)\<lparr>q := (q (client w))\<lparr>chan_buf := rest @ [e]\<rparr>,
               payload := \<lparr>Lines = Lines (payload (client w))
                             @ [new_logLine (client w) (t e) (s e)]\<rparr>\<rparr>\<rparr>)"
proof -
  let ?wa = "w\<lparr>client := (client w)\<lparr>q := (q (client w))\<lparr>chan_buf := rest\<rparr>,
               payload := \<lparr>Lines = Lines (payload (client w))
                             @ [new_logLine (client w) (t e) (s e)]\<rparr>\<rparr>\<rparr>"
  have "\<exists>ps. w1 = ?wa\<lparr>posts := ps\<rparr>"
  proof -
    from Flush_fail_cause [OF fl] consider "w1 = ?wa" | rq where "w1 = ?wa\<lparr>posts := posts ?wa @ [rq]\<rparr>"
      by blast
    then show ?thesis
    proof cases
      case 1
      then have "w1 = ?wa\<lparr>posts := posts ?wa\<rparr>" by simp
      then show ?thesis ..
    next
      case 2
      then show ?thesis ..
    qed
  qed
  then obtain ps where w1: "w1 = ?wa\<lparr>posts := ps\<rparr>" ..
  have "log ev (t e) (s e) (w\<lparr>client := (client w)\<lparr>q := (q (client w))\<lparr>chan_buf := rest\<rparr>\<rparr>\<rparr>)
        = (w1, Some err)"
    using lim fl by (simp add: log_unfold)
  then have "worker_iter ev w = Log (t e) (s e) (w1\<lparr>stdout := stdout w1 @ [PrintlnError err]\<rparr>)"
    using buf by (simp add: worker_iter_unfold)
  also have "\<dots> = Some (w\<lparr>posts := posts w1,
             stdout := stdout w @ [PrintlnError err, PrintlnEntry (t e) (s e)],
             client := (client w)\<lparr>q := (q (client w))\<lparr>chan_buf := rest @ [e]\<rparr>,
               payload := \<lparr>Lines = Lines (payload (client w))
                             @ [new_logLine (client w) (t e) (s e)]\<rparr>\<rparr>\<rparr>)"
    using room by (simp add: w1 Log_unfold)
  finally show ?thesis .
qed

lemmas demo_defs = demo_env_def demo_config_def demo_client_def demo_line_def demo_entry_def
  demo_request_def demo_world_def env_up_def env_500_def env_down_def env_flaky_def
  demo_runtime_def jam_start_def jam_taken_def jam_full_def

section \<open>The claims\<close>

text \<open>
  C1. When \<open>Flush\<close> fails, by the serialiser or by the transport, it returns that error and
  leaves the client as it was: the buffered lines, in their order, and \<open>Size\<close> are unchanged.
  The only trace of a failed POST is the request in the log of requests issued.
\<close>

theorem Flush_failure_keeps_buffer:
  "(Flush ev w = (w', Some err) \<longrightarrow>
      client w' = client w
      \<and> Lines (payload (client w')) = Lines (payload (client w))
      \<and> Size (client w') = Size (client w))
   \<and> (Size (client w) \<noteq> 0 \<and> json_Marshal ev (payload_json (payload (client w))) = Inl err \<longrightarrow>
        Flush ev w = (w, Some err))
   \<and> (Size (client w) \<noteq> 0 \<and> json_Marshal ev (payload_json (payload (client w))) = Inr b
        \<and> http_Post ev (length (posts w))
             \<lparr>req_url = apiURL (client w), contentType = ''application/json'', body = b\<rparr> = Inl err \<longrightarrow>
        Flush ev w =
          (w\<lparr>posts := posts w @
               [\<lparr>req_url = apiURL (client w), contentType = ''application/json'', body = b\<rparr>]\<rparr>,
           Some err))"
proof (intro conjI impI)
  assume f: "Flush ev w = (w', Some err)"
  then have c: "client w' = client w"
    by (simp add: Flush_fail_client)
  then show "client w' = client w" "Lines (payload (client w')) = Lines (payload (client w))"
    "Size (client w') = Size (client w)"
    by simp_all
next
  assume "Size (client w) \<noteq> 0 \<and> json_Marshal ev (payload_json (payload (client w))) = Inl err"
  then show "Flush ev w = (w, Some err)"
    by (simp add: Flush_marshal_fails)
next
  assume "Size (client w) \<noteq> 0 \<and> json_Marshal ev (payload_json (payload (client w))) = Inr b
        \<and> http_Post ev (length (posts w))
             \<lparr>req_url = apiURL (client w), contentType = ''application/json'', body = b\<rparr> = Inl err"
  then show "Flush ev w =
          (w\<lparr>posts := posts w @
               [\<lparr>req_url = apiURL (client w), contentType = ''application/json'', body = b\<rparr>]\<rparr>,
           Some err)"
    by (simp add: Flush_post_fails)
qed

text \<open>
  Three lines buffered under a limit of 100, the endpoint unreachable: \<open>Flush\<close> returns the
  transport error and \<open>Size\<close> is still 3.
\<close>

theorem Flush_failure_keeps_buffer_witness:
  "Flush env_down (demo_world 100 [demo_line 1 ''a'', demo_line 2 ''b'', demo_line 3 ''c''] [])
     = ((demo_world 100 [demo_line 1 ''a'', demo_line 2 ''b'', demo_line 3 ''c''] [])
          \<lparr>posts := [demo_request 100 [demo_line 1 ''a'', demo_line 2 ''b'', demo_line 3 ''c'']]\<rparr>,
        Some (Error ''connection refused''))
   \<and> Size (client (demo_world 100 [demo_line 1 ''a'', demo_line 2 ''b'', demo_line 3 ''c''] [])) = 3
   \<and> Size (client ((demo_world 100 [demo_line 1 ''a'', demo_line 2 ''b'', demo_line 3 ''c''] [])
          \<lparr>posts := [demo_request 100 [demo_line 1 ''a'', demo_line 2 ''b'', demo_line 3 ''c'']]\<rparr>)) = 3"
  using Flush_failure_keeps_buffer
    [of env_down "demo_world 100 [demo_line 1 ''a'', demo_line 2 ''b'', demo_line 3 ''c''] []"
        "(demo_world 100 [demo_line 1 ''a'', demo_line 2 ''b'', demo_line 3 ''c''] [])
          \<lparr>posts := [demo_request 100 [demo_line 1 ''a'', demo_line 2 ''b'', demo_line 3 ''c'']]\<rparr>"
        "Error ''connection refused''"
        "render_json (payload_json \<lparr>Lines = [demo_line 1 ''a'', demo_line 2 ''b'', demo_line 3 ''c'']\<rparr>)"]
  by (simp add: demo_defs Size_def)

text \<open>
  C4. On an empty buffer \<open>Flush\<close> returns \<^verbatim>\<open>nil\<close> and issues no request. On a buffer that is
  not empty it returns an error exactly when the serialiser fails or the POST fails in
  transport; whatever response the POST returns, of any status code, \<open>Flush\<close> returns
  \<^verbatim>\<open>nil\<close> and empties the buffer.
\<close>

theorem Flush_error_iff:
  "(Size (client w) = 0 \<longrightarrow> Flush ev w = (w, None))
   \<and> (Size (client w) \<noteq> 0 \<longrightarrow>
        (snd (Flush ev w) \<noteq> None \<longleftrightarrow>
           (\<exists>err. json_Marshal ev (payload_json (payload (client w))) = Inl err)
           \<or> (\<exists>b err. json_Marshal ev (payload_json (payload (client w))) = Inr b
                 \<and> http_Post ev (length (posts w))
                      \<lparr>req_url = apiURL (client w), contentType = ''application/json'', body = b\<rparr>
                     = Inl err)))
   \<and> (Size (client w) \<noteq> 0 \<and> json_Marshal ev (payload_json (payload (client w))) = Inr b
        \<and> http_Post ev (length (posts w))
             \<lparr>req_url = apiURL (client w), contentType = ''application/json'', body = b\<rparr> = Inr resp \<longrightarrow>
        Flush ev w =
          (w\<lparr>posts := posts w @
               [\<lparr>req_url = apiURL (client w), contentType = ''application/json'', body = b\<rparr>],
             client := (client w)\<lparr>payload := \<lparr>Lines = []\<rparr>\<rparr>\<rparr>,
           None)
        \<and> Size (client (fst (Flush ev w))) = 0)"
proof (intro conjI impI)
  assume "Size (client w) = 0"
  then show "Flush ev w = (w, None)"
    by (rule Flush_empty)
next
  assume ne: "Size (client w) \<noteq> 0"
  show "snd (Flush ev w) \<noteq> None \<longleftrightarrow>
           (\<exists>err. json_Marshal ev (payload_json (payload (client w))) = Inl err)
           \<or> (\<exists>b err. json_Marshal ev (payload_json (payload (client w))) = Inr b
                 \<and> http_Post ev (length (posts w))
                      \<lparr>req_url = apiURL (client w), contentType = ''application/json'', body = b\<rparr>
                     = Inl err)"
    using ne by (auto simp: Flush_def Let_def split: sum.splits)
next
  assume a: "Size (client w) \<noteq> 0 \<and> json_Marshal ev (payload_json (payload (client w))) = Inr b
        \<and> http_Post ev (length (posts w))
             \<lparr>req_url = apiURL (client w), contentType = ''application/json'', body = b\<rparr> = Inr resp"
  then show f: "Flush ev w =
          (w\<lparr>posts := posts w @
               [\<lparr>req_url = apiURL (client w), contentType = ''application/json'', body = b\<rparr>],
             client := (client w)\<lparr>payload := \<lparr>Lines = []\<rparr>\<rparr>\<rparr>,
           None)"
    by (simp add: Flush_post_responds)
  show "Size (client (fst (Flush ev w))) = 0"
    by (simp add: f)
qed

text \<open>
  An endpoint that answers every POST with status 500: the flush of an empty buffer does
  nothing, the flush of one line returns \<^verbatim>\<open>nil\<close> and empties the buffer. With the endpoint
  unreachable the same flush returns an error.
\<close>

theorem Flush_error_iff_witness:
  "Flush env_500 (demo_world 100 [] []) = (demo_world 100 [] [], None)
   \<and> Size (client (demo_world 100 [demo_line 1 ''a''] [])) \<noteq> 0
   \<and> http_Post env_500 0 (demo_request 100 [demo_line 1 ''a'']) = Inr \<lparr>StatusCode = 500\<rparr>
   \<and> Flush env_500 (demo_world 100 [demo_line 1 ''a''] [])
       = ((demo_world 100 [] [])\<lparr>posts := [demo_request 100 [demo_line 1 ''a'']]\<rparr>, None)
   \<and> snd (Flush env_down (demo_world 100 [demo_line 1 ''a''] [])) \<noteq> None"
  using Flush_error_iff [of "demo_world 100 [] []" env_500]
    Flush_error_iff [of "demo_world 100 [demo_line 1 ''a''] []" env_500
      "render_json (payload_json \<lparr>Lines = [demo_line 1 ''a'']\<rparr>)" "\<lparr>StatusCode = 500\<rparr>"]
    Flush_error_iff [of "demo_world 100 [demo_line 1 ''a''] []" env_down]
  by (simp add: demo_defs Size_def)

text \<open>
  C8. \<open>Close\<close> is \<open>Flush\<close>: the same world and the same result. It leaves the queue, the
  configuration, the endpoint and the printed lines as they were, so it neither drains nor
  closes the queue.
\<close>

theorem Close_is_Flush:
  "Close ev w = Flush ev w
   \<and> q (client (fst (Close ev w))) = q (client w)
   \<and> config (client (fst (Close ev w))) = config (client w)
   \<and> apiURL (client (fst (Close ev w))) = apiURL (client w)
   \<and> stdout (fst (Close ev w)) = stdout w"
  by (simp add: Close_def Flush_frame)

text \<open>One line buffered, the endpoint reachable: \<open>Close\<close> issues one POST and returns \<^verbatim>\<open>nil\<close>.\<close>

theorem Close_is_Flush_witness:
  "Close env_up (demo_world 100 [demo_line 1 ''a''] [])
     = ((demo_world 100 [] [])\<lparr>posts := [demo_request 100 [demo_line 1 ''a'']]\<rparr>, None)"
  using Close_is_Flush [of env_up "demo_world 100 [demo_line 1 ''a''] []"]
  by (simp add: demo_defs Flush_def Size_def Let_def)

text \<open>
  C7. The timestamp of the line \<open>log\<close> appends is \<open>UnixNano\<close> of the log time divided by
  1000000 and truncated towards zero: the sign of the nanoseconds times the floor of their
  magnitude over 1000000. For an instant an \<^verbatim>\<open>int64\<close> holds, \<open>UnixNano\<close> is the instant's
  nanoseconds. Below the limit \<open>log\<close> leaves that line last in the buffer.
\<close>

theorem log_timestamp_truncates:
  "sint (Timestamp (new_logLine c tm msg))
     = sgn (sint (UnixNano tm)) * (\<bar>sint (UnixNano tm)\<bar> div 1000000)
   \<and> (- (2 ^ 63) \<le> nanos tm \<and> nanos tm < 2 ^ 63 \<longrightarrow>
        sint (Timestamp (new_logLine c tm msg)) = sgn (nanos tm) * (\<bar>nanos tm\<bar> div 1000000))
   \<and> (int (Size (client w)) + 1 < sint (FlushLimit (config (client w))) \<longrightarrow>
        Lines (payload (client (fst (log ev tm msg w))))
          = Lines (payload (client w)) @ [new_logLine (client w) tm msg])"
proof (intro conjI impI)
  show eq: "sint (Timestamp (new_logLine c tm msg))
     = sgn (sint (UnixNano tm)) * (\<bar>sint (UnixNano tm)\<bar> div 1000000)"
    by (simp add: new_logLine_def sint_div_int64 signed_divide_int_def)
  assume "- (2 ^ 63) \<le> nanos tm \<and> nanos tm < 2 ^ 63"
  then have "sint (UnixNano tm) = nanos tm"
    by (simp add: sint_UnixNano)
  with eq show "sint (Timestamp (new_logLine c tm msg)) = sgn (nanos tm) * (\<bar>nanos tm\<bar> div 1000000)"
    by simp
next
  assume "int (Size (client w)) + 1 < sint (FlushLimit (config (client w)))"
  then show "Lines (payload (client (fst (log ev tm msg w))))
          = Lines (payload (client w)) @ [new_logLine (client w) tm msg]"
    by (simp add: log_unfold)
qed

text \<open>
  One and a half milliseconds before the epoch is millisecond \<open>-1\<close>, not \<open>-2\<close>; 2999999
  nanoseconds after it is millisecond 2.
\<close>

theorem log_timestamp_truncates_witness:
  "sint (Timestamp (new_logLine (demo_client 100 [] []) \<lparr>nanos = - 1500000\<rparr> ''a'')) = - 1
   \<and> sint (Timestamp (new_logLine (demo_client 100 [] []) \<lparr>nanos = 2999999\<rparr> ''b'')) = 2
   \<and> Lines (payload (client (fst (log env_up \<lparr>nanos = 2999999\<rparr> ''b'' (demo_world 100 [] [])))))
       = [demo_line 2 ''b'']"
  using log_timestamp_truncates [of "demo_client 100 [] []" "\<lparr>nanos = - 1500000\<rparr>" "''a''"
           "demo_world 100 [] []" env_up]
    log_timestamp_truncates [of "demo_client 100 [] []" "\<lparr>nanos = 2999999\<rparr>" "''b''"
           "demo_world 100 [] []" env_up]
  by (simp add: demo_defs new_logLine_def div_int64_def UnixNano_def signed_divide_int_def Size_def)

text \<open>
  C6, as amended. \<open>NewClient\<close> has no error result, whatever the API key and the host name,
  the empty ones too. A flush limit of 0 becomes 5000. Whenever a client is returned, its
  flush limit is the configured one (5000 for 0), its queue is empty and has the capacity
  \<^verbatim>\<open>10*cfg.FlushLimit\<close> as Go's \<^verbatim>\<open>int\<close> computes it, with wrap-around, and that capacity is
  exactly ten times the limit when the limit is from 0 to 922337203685477580. A client is
  returned exactly when that product is neither negative nor above the largest capacity the
  runtime makes, and the memory for the queue is there; otherwise \<^verbatim>\<open>make\<close> panics, or the
  run dies out of memory. For the limit 0 a client with capacity 50000 is returned when the
  runtime makes a channel that large.
\<close>

theorem NewClient_default_and_capacity:
  "(FlushLimit cfg = 0 \<and> 50000 \<le> max_chan_cap rt \<and> can_alloc rt 50000 \<longrightarrow>
      (\<exists>c. NewClient rt cfg = Inr c \<and> FlushLimit (config c) = 5000 \<and> chan_cap (q c) = 50000))
   \<and> (\<forall>c. NewClient rt cfg = Inr c \<longrightarrow>
         FlushLimit (config c) = (if FlushLimit cfg = 0 then 5000 else FlushLimit cfg)
         \<and> int (chan_cap (q c)) = sint (10 * FlushLimit (config c))
         \<and> chan_cap (q c) \<le> max_chan_cap rt
         \<and> chan_buf (q c) = [] \<and> Lines (payload c) = []
         \<and> APIKey (config c) = APIKey cfg \<and> Hostname (config c) = Hostname cfg
         \<and> LogFile (config c) = LogFile cfg
         \<and> (0 \<le> sint (FlushLimit (config c)) \<and> sint (FlushLimit (config c)) \<le> 922337203685477580 \<longrightarrow>
               int (chan_cap (q c)) = 10 * sint (FlushLimit (config c))))
   \<and> ((\<exists>c. NewClient rt cfg = Inr c) \<longleftrightarrow>
         0 \<le> sint (10 * (if FlushLimit cfg = 0 then 5000 else FlushLimit cfg))
         \<and> sint (10 * (if FlushLimit cfg = 0 then 5000 else FlushLimit cfg)) \<le> int (max_chan_cap rt)
         \<and> can_alloc rt (nat (sint (10 * (if FlushLimit cfg = 0 then 5000 else FlushLimit cfg)))))
   \<and> (NewClient rt cfg = Inl MakechanSizeOutOfRange \<longleftrightarrow>
         sint (10 * (if FlushLimit cfg = 0 then 5000 else FlushLimit cfg)) < 0
         \<or> int (max_chan_cap rt) < sint (10 * (if FlushLimit cfg = 0 then 5000 else FlushLimit cfg)))"
proof (intro conjI impI allI)
  assume z: "FlushLimit cfg = 0 \<and> 50000 \<le> max_chan_cap rt \<and> can_alloc rt 50000"
  then show "\<exists>c. NewClient rt cfg = Inr c \<and> FlushLimit (config c) = 5000 \<and> chan_cap (q c) = 50000"
    by (simp add: NewClient_cases word_sless_alt)
next
  fix c assume r: "NewClient rt cfg = Inr c"
  define fl where "fl = (if FlushLimit cfg = 0 then 5000 else FlushLimit cfg)"
  from r have nn: "\<not> 10 * fl <s 0" and le: "\<not> int (max_chan_cap rt) < sint (10 * fl)"
    by (auto simp: NewClient_cases fl_def split: if_splits)
  from r have c: "c = \<lparr>config = cfg\<lparr>FlushLimit := fl\<rparr>, payload = \<lparr>Lines = []\<rparr>,
                apiURL = makeIngestURL (cfg\<lparr>FlushLimit := fl\<rparr>),
                q = \<lparr>chan_buf = [], chan_cap = nat (sint (10 * fl))\<rparr>\<rparr>"
    by (auto simp: NewClient_cases fl_def split: if_splits)
  show "FlushLimit (config c) = (if FlushLimit cfg = 0 then 5000 else FlushLimit cfg)"
    by (simp add: c fl_def)
  show cap: "int (chan_cap (q c)) = sint (10 * FlushLimit (config c))"
    using nn by (simp add: c word_sless_alt)
  show "chan_cap (q c) \<le> max_chan_cap rt"
    using le nn by (simp add: c word_sless_alt)
  show "chan_buf (q c) = []" "Lines (payload c) = []" "APIKey (config c) = APIKey cfg"
    "Hostname (config c) = Hostname cfg" "LogFile (config c) = LogFile cfg"
    by (simp_all add: c)
  assume "0 \<le> sint (FlushLimit (config c)) \<and> sint (FlushLimit (config c)) \<le> 922337203685477580"
  then have "sint (10 * FlushLimit (config c)) = 10 * sint (FlushLimit (config c))"
    by (intro sint_times_ten) simp_all
  with cap show "int (chan_cap (q c)) = 10 * sint (FlushLimit (config c))"
    by simp
next
  show "(\<exists>c. NewClient rt cfg = Inr c) \<longleftrightarrow>
         0 \<le> sint (10 * (if FlushLimit cfg = 0 then 5000 else FlushLimit cfg))
         \<and> sint (10 * (if FlushLimit cfg = 0 then 5000 else FlushLimit cfg)) \<le> int (max_chan_cap rt)
         \<and> can_alloc rt (nat (sint (10 * (if FlushLimit cfg = 0 then 5000 else FlushLimit cfg))))"
    by (auto simp: NewClient_cases word_sless_alt)
next
  show "NewClient rt cfg = Inl MakechanSizeOutOfRange \<longleftrightarrow>
         sint (10 * (if FlushLimit cfg = 0 then 5000 else FlushLimit cfg)) < 0
         \<or> int (max_chan_cap rt) < sint (10 * (if FlushLimit cfg = 0 then 5000 else FlushLimit cfg))"
    by (auto simp: NewClient_cases word_sless_alt)
qed

text \<open>
  No API key, no host name and no flush limit, on linux/amd64: a client with limit 5000 and
  capacity 50000. The limit 3518437208884 asks for more than \<^verbatim>\<open>makechan\<close> accepts there.
\<close>

theorem NewClient_default_and_capacity_witness:
  "FlushLimit \<lparr>APIKey = '''', LogFile = ''app.log'', Hostname = '''', FlushLimit = 0\<rparr> = 0
   \<and> NewClient demo_runtime \<lparr>APIKey = '''', LogFile = ''app.log'', Hostname = '''', FlushLimit = 0\<rparr>
       = Inr \<lparr>config = \<lparr>APIKey = '''', LogFile = ''app.log'', Hostname = '''', FlushLimit = 5000\<rparr>,
              payload = \<lparr>Lines = []\<rparr>,
              apiURL = makeIngestURL
                \<lparr>APIKey = '''', LogFile = ''app.log'', Hostname = '''', FlushLimit = 5000\<rparr>,
              q = \<lparr>chan_buf = [], chan_cap = 50000\<rparr>\<rparr>
   \<and> NewClient demo_runtime (demo_config 2) = Inr (demo_client 2 [] [])
   \<and> NewClient demo_runtime (demo_config 3518437208884) = Inl MakechanSizeOutOfRange"
  using NewClient_default_and_capacity
    [of "\<lparr>APIKey = '''', LogFile = ''app.log'', Hostname = '''', FlushLimit = 0\<rparr>" demo_runtime]
    NewClient_default_and_capacity [of "demo_config 2" demo_runtime]
    NewClient_default_and_capacity [of "demo_config 3518437208884" demo_runtime]
  by (simp add: NewClient_cases demo_defs word_sless_alt)

text \<open>
  C6 as stated fails where the product wraps: for the limit 1844674407370955162 the product
  \<^verbatim>\<open>10*cfg.FlushLimit\<close> is 18446744073709551620, which wraps to 4, so the client that
  \<open>NewClient\<close> returns has a queue of capacity 4, not ten times its limit.
\<close>

theorem NewClient_default_and_capacity_counterexample:
  "NewClient demo_runtime (demo_config 1844674407370955162)
       = Inr \<lparr>config = demo_config 1844674407370955162, payload = \<lparr>Lines = []\<rparr>,
              apiURL = makeIngestURL (demo_config 1844674407370955162),
              q = \<lparr>chan_buf = [], chan_cap = 4\<rparr>\<rparr>
   \<and> sint (FlushLimit (demo_config 1844674407370955162)) = 1844674407370955162
   \<and> int (chan_cap \<lparr>chan_buf = ([] :: entry list), chan_cap = 4\<rparr>)
       \<noteq> 10 * sint (FlushLimit (demo_config 1844674407370955162))"
  by (simp add: NewClient_cases demo_defs word_sless_alt)

text \<open>
  C10, as amended. The default is applied to the limit 0 only: a negative limit is kept.
  \<open>NewClient\<close> then panics exactly when \<^verbatim>\<open>10*cfg.FlushLimit\<close>, which wraps in 64 bits, is
  negative or above the largest capacity the runtime makes. It is negative for every limit
  from \<open>-922337203685477580\<close> to \<open>-1\<close>. When the product wraps to a capacity the runtime
  makes and the memory is there, a client is returned, with the negative limit and that
  capacity.
\<close>

theorem NewClient_negative_limit:
  assumes "sint (FlushLimit cfg) < 0"
  shows "(NewClient rt cfg = Inl MakechanSizeOutOfRange \<longleftrightarrow>
            sint (10 * FlushLimit cfg) < 0 \<or> int (max_chan_cap rt) < sint (10 * FlushLimit cfg))
     \<and> (- 922337203685477580 \<le> sint (FlushLimit cfg) \<longrightarrow>
            sint (10 * FlushLimit cfg) < 0 \<and> NewClient rt cfg = Inl MakechanSizeOutOfRange)
     \<and> (\<forall>c. NewClient rt cfg = Inr c \<longrightarrow>
            FlushLimit (config c) = FlushLimit cfg
            \<and> int (chan_cap (q c)) = sint (10 * FlushLimit cfg)
            \<and> chan_cap (q c) \<le> max_chan_cap rt)
     \<and> ((\<exists>c. NewClient rt cfg = Inr c) \<longleftrightarrow>
            0 \<le> sint (10 * FlushLimit cfg) \<and> sint (10 * FlushLimit cfg) \<le> int (max_chan_cap rt)
            \<and> can_alloc rt (nat (sint (10 * FlushLimit cfg))))"
proof -
  have nz: "FlushLimit cfg \<noteq> 0"
    using assms by auto
  have 1: "NewClient rt cfg = Inl MakechanSizeOutOfRange \<longleftrightarrow>
            sint (10 * FlushLimit cfg) < 0 \<or> int (max_chan_cap rt) < sint (10 * FlushLimit cfg)"
    by (auto simp: NewClient_cases nz word_sless_alt)
  have 2: "sint (10 * FlushLimit cfg) < 0 \<and> NewClient rt cfg = Inl MakechanSizeOutOfRange"
    if "- 922337203685477580 \<le> sint (FlushLimit cfg)"
  proof -
    have "sint (10 * FlushLimit cfg) = 10 * sint (FlushLimit cfg)"
      using that assms by (intro sint_times_ten) simp_all
    then have "sint (10 * FlushLimit cfg) < 0"
      using assms by simp
    then show ?thesis
      by (simp add: 1)
  qed
  have 3: "\<forall>c. NewClient rt cfg = Inr c \<longrightarrow>
            FlushLimit (config c) = FlushLimit cfg
            \<and> int (chan_cap (q c)) = sint (10 * FlushLimit cfg)
            \<and> chan_cap (q c) \<le> max_chan_cap rt"
    by (auto simp: NewClient_cases nz word_sless_alt split: if_splits)
  have 4: "(\<exists>c. NewClient rt cfg = Inr c) \<longleftrightarrow>
            0 \<le> sint (10 * FlushLimit cfg) \<and> sint (10 * FlushLimit cfg) \<le> int (max_chan_cap rt)
            \<and> can_alloc rt (nat (sint (10 * FlushLimit cfg)))"
    by (auto simp: NewClient_cases nz word_sless_alt)
  show ?thesis using 1 2 3 4 by blast
qed

text \<open>
  On linux/amd64: the limit \<open>-1\<close> asks for the capacity \<open>-10\<close>, and \<open>NewClient\<close> panics; the
  limit \<open>-922337203685477581\<close> asks for 9223372036854775806, and \<open>NewClient\<close> panics as well.
\<close>

theorem NewClient_negative_limit_witness:
  "sint (FlushLimit (demo_config (- 1))) < 0
   \<and> NewClient demo_runtime (demo_config (- 1)) = Inl MakechanSizeOutOfRange
   \<and> sint (FlushLimit (demo_config (- 922337203685477581))) < 0
   \<and> sint (10 * FlushLimit (demo_config (- 922337203685477581))) = 9223372036854775806
   \<and> NewClient demo_runtime (demo_config (- 922337203685477581)) = Inl MakechanSizeOutOfRange"
  using NewClient_negative_limit [of "demo_config (- 1)" demo_runtime]
    NewClient_negative_limit [of "demo_config (- 922337203685477581)" demo_runtime]
  by (simp add: demo_defs)

text \<open>
  C10 as stated fails: for the limit \<open>-1844674407370955161\<close> the product
  \<^verbatim>\<open>10*cfg.FlushLimit\<close> is \<open>-18446744073709551610\<close>, which wraps to 6, so \<open>NewClient\<close> returns a
  client, with the negative limit and a queue of capacity 6.
\<close>

theorem NewClient_negative_limit_counterexample:
  "sint (FlushLimit (demo_config (- 1844674407370955161))) < 0
   \<and> NewClient demo_runtime (demo_config (- 1844674407370955161))
       = Inr \<lparr>config = demo_config (- 1844674407370955161), payload = \<lparr>Lines = []\<rparr>,
              apiURL = makeIngestURL (demo_config (- 1844674407370955161)),
              q = \<lparr>chan_buf = [], chan_cap = 6\<rparr>\<rparr>"
  by (simp add: NewClient_cases demo_defs word_sless_alt)

text \<open>
  C2. The worker starts on an empty buffer. While the number of entries it has processed is
  below the flush limit, \<open>Size\<close> is that number and no request has been issued. The entry
  that brings the count to the limit triggers a flush in its own round: one POST is issued,
  carrying every line, and when it is answered \<open>Size\<close> is 0 again. When that POST fails in
  transport, it was still issued, and all lines stay buffered.
\<close>

theorem worker_flushes_at_limit:
  assumes empty: "Lines (payload (client w)) = []"
  shows "(chan_buf (q (client w)) = es @ rest
          \<and> int (length es) < sint (FlushLimit (config (client w))) \<longrightarrow>
            (\<exists>w'. worker_iters ev (length es) w = Some w'
               \<and> Size (client w') = length es \<and> posts w' = posts w
               \<and> chan_buf (q (client w')) = rest))
     \<and> (chan_buf (q (client w)) = es @ e # rest
          \<and> int (length es) + 1 = sint (FlushLimit (config (client w)))
          \<and> json_Marshal ev (payload_json
                \<lparr>Lines = map (\<lambda>x. new_logLine (client w) (t x) (s x)) (es @ [e])\<rparr>) = Inr b
          \<and> http_Post ev (length (posts w))
                \<lparr>req_url = apiURL (client w), contentType = ''application/json'', body = b\<rparr>
              = Inr resp \<longrightarrow>
            (\<exists>w1 w'. worker_iters ev (length es) w = Some w1
               \<and> Size (client w1) = length es \<and> posts w1 = posts w
               \<and> worker_iter ev w1 = Some w'
               \<and> worker_iters ev (length es + 1) w = Some w'
               \<and> posts w' = posts w @
                    [\<lparr>req_url = apiURL (client w), contentType = ''application/json'', body = b\<rparr>]
               \<and> Size (client w') = 0 \<and> chan_buf (q (client w')) = rest))
     \<and> (chan_buf (q (client w)) = es @ e # rest
          \<and> length (es @ e # rest) \<le> chan_cap (q (client w))
          \<and> int (length es) + 1 = sint (FlushLimit (config (client w)))
          \<and> json_Marshal ev (payload_json
                \<lparr>Lines = map (\<lambda>x. new_logLine (client w) (t x) (s x)) (es @ [e])\<rparr>) = Inr b
          \<and> http_Post ev (length (posts w))
                \<lparr>req_url = apiURL (client w), contentType = ''application/json'', body = b\<rparr>
              = Inl err \<longrightarrow>
            (\<exists>w'. worker_iters ev (length es + 1) w = Some w'
               \<and> posts w' = posts w @
                    [\<lparr>req_url = apiURL (client w), contentType = ''application/json'', body = b\<rparr>]
               \<and> Size (client w') = length es + 1))"
proof (intro conjI impI)
  assume a: "chan_buf (q (client w)) = es @ rest
          \<and> int (length es) < sint (FlushLimit (config (client w)))"
  then have "worker_iters ev (length es) w =
     Some (w\<lparr>client := (client w)
        \<lparr>q := (q (client w))\<lparr>chan_buf := rest\<rparr>,
         payload := \<lparr>Lines = Lines (payload (client w))
                       @ map (\<lambda>e. new_logLine (client w) (t e) (s e)) es\<rparr>\<rparr>\<rparr>)"
    using empty by (intro worker_iters_below) (simp_all add: Size_def)
  then show "\<exists>w'. worker_iters ev (length es) w = Some w'
               \<and> Size (client w') = length es \<and> posts w' = posts w
               \<and> chan_buf (q (client w')) = rest"
    using empty by simp
next
  assume a: "chan_buf (q (client w)) = es @ e # rest
          \<and> int (length es) + 1 = sint (FlushLimit (config (client w)))
          \<and> json_Marshal ev (payload_json
                \<lparr>Lines = map (\<lambda>x. new_logLine (client w) (t x) (s x)) (es @ [e])\<rparr>) = Inr b
          \<and> http_Post ev (length (posts w))
                \<lparr>req_url = apiURL (client w), contentType = ''application/json'', body = b\<rparr>
              = Inr resp"
  let ?w1 = "w\<lparr>client := (client w)
        \<lparr>q := (q (client w))\<lparr>chan_buf := e # rest\<rparr>,
         payload := \<lparr>Lines = map (\<lambda>e. new_logLine (client w) (t e) (s e)) es\<rparr>\<rparr>\<rparr>"
  let ?rq = "\<lparr>req_url = apiURL (client w), contentType = ''application/json'', body = b\<rparr>"
  let ?w' = "w\<lparr>posts := posts w @ [?rq],
        client := (client w)\<lparr>q := (q (client w))\<lparr>chan_buf := rest\<rparr>, payload := \<lparr>Lines = []\<rparr>\<rparr>\<rparr>"
  have r1: "worker_iters ev (length es) w = Some ?w1"
    using a empty worker_iters_below [of w es "e # rest" ev] by (simp add: Size_def)
  have "Flush ev (?w1\<lparr>client := (client ?w1)\<lparr>q := (q (client ?w1))\<lparr>chan_buf := rest\<rparr>,
            payload := \<lparr>Lines = Lines (payload (client ?w1))
                         @ [new_logLine (client ?w1) (t e) (s e)]\<rparr>\<rparr>\<rparr>)
        = (?w', None)"
    using a by (subst Flush_post_responds [where b = b and resp = resp]) simp_all
  then have r2: "worker_iter ev ?w1 = Some ?w'"
    using a by (simp add: worker_iter_unfold log_unfold)
  have "worker_iters ev (length es + 1) w = worker_iters ev 1 ?w1"
    by (rule worker_iters_add [OF r1])
  then have r3: "worker_iters ev (length es + 1) w = Some ?w'"
    by (simp add: r2)
  show "\<exists>w1 w'. worker_iters ev (length es) w = Some w1
               \<and> Size (client w1) = length es \<and> posts w1 = posts w
               \<and> worker_iter ev w1 = Some w'
               \<and> worker_iters ev (length es + 1) w = Some w'
               \<and> posts w' = posts w @ [?rq]
               \<and> Size (client w') = 0 \<and> chan_buf (q (client w')) = rest"
    using r1 r2 r3 by (intro exI [of _ ?w1] exI [of _ ?w']) simp
next
  assume a: "chan_buf (q (client w)) = es @ e # rest
          \<and> length (es @ e # rest) \<le> chan_cap (q (client w))
          \<and> int (length es) + 1 = sint (FlushLimit (config (client w)))
          \<and> json_Marshal ev (payload_json
                \<lparr>Lines = map (\<lambda>x. new_logLine (client w) (t x) (s x)) (es @ [e])\<rparr>) = Inr b
          \<and> http_Post ev (length (posts w))
                \<lparr>req_url = apiURL (client w), contentType = ''application/json'', body = b\<rparr>
              = Inl err"
  let ?w1 = "w\<lparr>client := (client w)
        \<lparr>q := (q (client w))\<lparr>chan_buf := e # rest\<rparr>,
         payload := \<lparr>Lines = map (\<lambda>e. new_logLine (client w) (t e) (s e)) es\<rparr>\<rparr>\<rparr>"
  let ?rq = "\<lparr>req_url = apiURL (client w), contentType = ''application/json'', body = b\<rparr>"
  let ?wa = "?w1\<lparr>client := (client ?w1)\<lparr>q := (q (client ?w1))\<lparr>chan_buf := rest\<rparr>,
            payload := \<lparr>Lines = Lines (payload (client ?w1))
                         @ [new_logLine (client ?w1) (t e) (s e)]\<rparr>\<rparr>\<rparr>"
  have r1: "worker_iters ev (length es) w = Some ?w1"
    using a empty worker_iters_below [of w es "e # rest" ev] by (simp add: Size_def)
  have f: "Flush ev ?wa = (?wa\<lparr>posts := posts ?wa @ [?rq]\<rparr>, Some err)"
    using a by (subst Flush_post_fails [where b = b and err = err]) simp_all
  have r2: "worker_iter ev ?w1 =
     Some (?w1\<lparr>posts := posts (?wa\<lparr>posts := posts ?wa @ [?rq]\<rparr>),
             stdout := stdout ?w1 @ [PrintlnError err, PrintlnEntry (t e) (s e)],
             client := (client ?w1)\<lparr>q := (q (client ?w1))\<lparr>chan_buf := rest @ [e]\<rparr>,
               payload := \<lparr>Lines = Lines (payload (client ?w1))
                             @ [new_logLine (client ?w1) (t e) (s e)]\<rparr>\<rparr>\<rparr>)"
    using a by (intro worker_iter_flush_fails [OF _ _ _ f]) simp_all
  have "worker_iters ev (length es + 1) w = worker_iters ev 1 ?w1"
    by (rule worker_iters_add [OF r1])
  then show "\<exists>w'. worker_iters ev (length es + 1) w = Some w'
               \<and> posts w' = posts w @ [?rq]
               \<and> Size (client w') = length es + 1"
    by (simp add: r2)
qed

text \<open>
  A limit of 2 and the entries \<open>a\<close> and \<open>b\<close> queued, the endpoint reachable: after one round
  \<open>Size\<close> is 1 and nothing was sent, after two rounds \<open>Size\<close> is 0 and one POST carried
  \<open>a\<close>, then \<open>b\<close>.
\<close>

theorem worker_flushes_at_limit_witness:
  "Lines (payload (client (demo_world 2 [] [demo_entry 1000000 ''a'', demo_entry 2999999 ''b'']))) = []
   \<and> worker_iters env_up 1 (demo_world 2 [] [demo_entry 1000000 ''a'', demo_entry 2999999 ''b''])
       = Some (demo_world 2 [demo_line 1 ''a''] [demo_entry 2999999 ''b''])
   \<and> Size (client (demo_world 2 [demo_line 1 ''a''] [demo_entry 2999999 ''b''])) = 1
   \<and> worker_iters env_up 2 (demo_world 2 [] [demo_entry 1000000 ''a'', demo_entry 2999999 ''b''])
       = Some ((demo_world 2 [] [])
                 \<lparr>posts := [demo_request 2 [demo_line 1 ''a'', demo_line 2 ''b'']]\<rparr>)
   \<and> Size (client ((demo_world 2 [] [])
                 \<lparr>posts := [demo_request 2 [demo_line 1 ''a'', demo_line 2 ''b'']]\<rparr>)) = 0"
  using worker_flushes_at_limit
    [where w = "demo_world 2 [] [demo_entry 1000000 ''a'', demo_entry 2999999 ''b'']"
       and es = "[demo_entry 1000000 ''a'']" and rest = "[demo_entry 2999999 ''b'']"
       and ev = env_up]
    worker_flushes_at_limit
    [where w = "demo_world 2 [] [demo_entry 1000000 ''a'', demo_entry 2999999 ''b'']"
       and es = "[demo_entry 1000000 ''a'']" and e = "demo_entry 2999999 ''b''" and rest = "[]"
       and ev = env_up
       and b = "render_json (payload_json \<lparr>Lines = [demo_line 1 ''a'', demo_line 2 ''b'']\<rparr>)"
       and resp = "\<lparr>StatusCode = 200\<rparr>"]
  by (simp add: demo_defs Size_def new_logLine_def div_int64_def UnixNano_def
        signed_divide_int_def worker_iter_def chan_recv_def log_def Flush_def Let_def
        numeral_2_eq_2)

text \<open>
  C3. A successful flush of a buffer that is not empty issues one POST, to the client's
  endpoint and as \<^verbatim>\<open>application/json\<close>, whose body is the serialised document
  \<^verbatim>\<open>{"lines": [...]}\<close> with one object per buffered line, in buffer order. For a client made by
  \<open>NewClient\<close> from \<open>cfg\<close>, on any runtime, whose worker has processed the queued entries \<open>es\<close> below the
  limit, those objects are, entry by entry, the truncated timestamp, \<^verbatim>\<open>line\<close> the entry's
  message and \<^verbatim>\<open>file\<close> the \<open>LogFile\<close> of \<open>cfg\<close>.
\<close>

theorem flush_body_is_buffer:
  "(Size (client w) \<noteq> 0 \<and> Flush ev w = (w', None) \<longrightarrow>
      (\<exists>rq. posts w' = posts w @ [rq] \<and> req_url rq = apiURL (client w)
         \<and> contentType rq = ''application/json''
         \<and> json_Marshal ev
              (JObject [(''lines'', JArray (map
                 (\<lambda>l. JObject [(''timestamp'', JNum (sint (Timestamp l))),
                               (''line'', JString (Line l)),
                               (''file'', JString (File l))])
                 (Lines (payload (client w)))))])
            = Inr (body rq)))
   \<and> (NewClient rt cfg = Inr c \<and> client w = c\<lparr>q := (q c)\<lparr>chan_buf := es\<rparr>\<rparr> \<and> es \<noteq> []
       \<and> int (length es) < sint (FlushLimit (config c))
       \<and> worker_iters ev (length es) w = Some w1 \<and> Flush ev w1 = (w2, None) \<longrightarrow>
      (\<exists>rq. posts w2 = posts w @ [rq]
         \<and> json_Marshal ev
              (JObject [(''lines'', JArray (map
                 (\<lambda>e. JObject [(''timestamp'', JNum (sint (div_int64 (UnixNano (t e)) 1000000))),
                               (''line'', JString (s e)),
                               (''file'', JString (LogFile cfg))])
                 es))])
            = Inr (body rq)))"
proof (intro conjI impI)
  assume a: "Size (client w) \<noteq> 0 \<and> Flush ev w = (w', None)"
  then have ne: "Lines (payload (client w)) \<noteq> []"
    by (auto simp: Size_def)
  from a Flush_ok_cause [of ev w w'] obtain b resp where
    m: "json_Marshal ev (payload_json (payload (client w))) = Inr b"
    and w': "w' = w\<lparr>posts := posts w @
                [\<lparr>req_url = apiURL (client w), contentType = ''application/json'', body = b\<rparr>],
                client := (client w)\<lparr>payload := \<lparr>Lines = []\<rparr>\<rparr>\<rparr>"
    by blast
  show "\<exists>rq. posts w' = posts w @ [rq] \<and> req_url rq = apiURL (client w)
         \<and> contentType rq = ''application/json''
         \<and> json_Marshal ev
              (JObject [(''lines'', JArray (map
                 (\<lambda>l. JObject [(''timestamp'', JNum (sint (Timestamp l))),
                               (''line'', JString (Line l)),
                               (''file'', JString (File l))])
                 (Lines (payload (client w)))))])
            = Inr (body rq)"
    using m ne
    by (intro exI [of _ "\<lparr>req_url = apiURL (client w), contentType = ''application/json'', body = b\<rparr>"])
       (simp add: w' payload_json_def logLine_json_def [abs_def])
next
  assume a: "NewClient rt cfg = Inr c \<and> client w = c\<lparr>q := (q c)\<lparr>chan_buf := es\<rparr>\<rparr> \<and> es \<noteq> []
       \<and> int (length es) < sint (FlushLimit (config c))
       \<and> worker_iters ev (length es) w = Some w1 \<and> Flush ev w1 = (w2, None)"
  have c: "LogFile (config c) = LogFile cfg" "Lines (payload c) = []"
    using a by (auto simp: NewClient_cases split: if_splits)
  have "worker_iters ev (length es) w =
     Some (w\<lparr>client := (client w)
        \<lparr>q := (q (client w))\<lparr>chan_buf := []\<rparr>,
         payload := \<lparr>Lines = Lines (payload (client w))
                       @ map (\<lambda>e. new_logLine (client w) (t e) (s e)) es\<rparr>\<rparr>\<rparr>)"
    using a c by (intro worker_iters_below) (simp_all add: Size_def)
  then have w1: "w1 = w\<lparr>client := (client w)
        \<lparr>q := (q (client w))\<lparr>chan_buf := []\<rparr>,
         payload := \<lparr>Lines = map (\<lambda>e. new_logLine (client w) (t e) (s e)) es\<rparr>\<rparr>\<rparr>"
    using a c by simp
  then have s1: "Size (client w1) \<noteq> 0"
    using a by simp
  from a s1 Flush_ok_cause [of ev w1 w2] obtain b resp where
    m: "json_Marshal ev (payload_json (payload (client w1))) = Inr b"
    and w2: "w2 = w1\<lparr>posts := posts w1 @
                [\<lparr>req_url = apiURL (client w1), contentType = ''application/json'', body = b\<rparr>],
                client := (client w1)\<lparr>payload := \<lparr>Lines = []\<rparr>\<rparr>\<rparr>"
    by blast
  have doc: "payload_json (payload (client w1)) =
      JObject [(''lines'', JArray (map
                 (\<lambda>e. JObject [(''timestamp'', JNum (sint (div_int64 (UnixNano (t e)) 1000000))),
                               (''line'', JString (s e)),
                               (''file'', JString (LogFile cfg))])
                 es))]"
    using a c by (simp add: w1 payload_json_def logLine_json_def new_logLine_def comp_def)
  show "\<exists>rq. posts w2 = posts w @ [rq]
         \<and> json_Marshal ev
              (JObject [(''lines'', JArray (map
                 (\<lambda>e. JObject [(''timestamp'', JNum (sint (div_int64 (UnixNano (t e)) 1000000))),
                               (''line'', JString (s e)),
                               (''file'', JString (LogFile cfg))])
                 es))])
            = Inr (body rq)"
    using m
    by (intro exI [of _ "\<lparr>req_url = apiURL (client w1), contentType = ''application/json'', body = b\<rparr>"])
       (simp add: doc w2, simp add: w1)
qed

text \<open>
  A client made with the label \<^verbatim>\<open>app.log\<close> and a limit of 100; the entries \<open>a\<close>, \<open>b\<close>, \<open>c\<close> are
  queued, the worker processes them and \<open>Flush\<close> is called: the one POST carries the three
  lines in that order.
\<close>

theorem flush_body_is_buffer_witness:
  "NewClient demo_runtime (demo_config 100) = Inr (demo_client 100 [] [])
   \<and> worker_iters env_up 3
        (demo_world 100 [] [demo_entry 1000000 ''a'', demo_entry 2999999 ''b'', demo_entry 3000000 ''c''])
       = Some (demo_world 100 [demo_line 1 ''a'', demo_line 2 ''b'', demo_line 3 ''c''] [])
   \<and> Flush env_up (demo_world 100 [demo_line 1 ''a'', demo_line 2 ''b'', demo_line 3 ''c''] [])
       = ((demo_world 100 [] [])
            \<lparr>posts := [demo_request 100 [demo_line 1 ''a'', demo_line 2 ''b'', demo_line 3 ''c'']]\<rparr>,
          None)
   \<and> body (demo_request 100 [demo_line 1 ''a'', demo_line 2 ''b'', demo_line 3 ''c''])
       = render_json (JObject [(''lines'', JArray
           [JObject [(''timestamp'', JNum 1), (''line'', JString ''a''), (''file'', JString ''app.log'')],
            JObject [(''timestamp'', JNum 2), (''line'', JString ''b''), (''file'', JString ''app.log'')],
            JObject [(''timestamp'', JNum 3), (''line'', JString ''c''), (''file'', JString ''app.log'')]])])"
  using flush_body_is_buffer
    [where w = "demo_world 100 [] [demo_entry 1000000 ''a'', demo_entry 2999999 ''b'', demo_entry 3000000 ''c'']"
       and ev = env_up and rt = demo_runtime and cfg = "demo_config 100"
       and c = "demo_client 100 [] []"
       and es = "[demo_entry 1000000 ''a'', demo_entry 2999999 ''b'', demo_entry 3000000 ''c'']"
       and ?w1.0 = "demo_world 100 [demo_line 1 ''a'', demo_line 2 ''b'', demo_line 3 ''c''] []"
       and ?w2.0 = "(demo_world 100 [] [])
            \<lparr>posts := [demo_request 100 [demo_line 1 ''a'', demo_line 2 ''b'', demo_line 3 ''c'']]\<rparr>"]
  by (simp add: demo_defs NewClient_cases word_sless_alt Size_def new_logLine_def div_int64_def
        UnixNano_def signed_divide_int_def worker_iter_def chan_recv_def log_def Flush_def Let_def
        payload_json_def logLine_json_def numeral_3_eq_3)

text \<open>
  C5, as amended. A round of the worker in which \<open>log\<close> returns an error: the threshold had
  been reached (the error is the flush's), the worker prints the error and calls \<open>Log\<close> with
  the entry's own time and message. That call prints them and puts the entry at the back of
  the queue when the queue has room at that moment, as it has when no call of another
  goroutine came in between, the worker having just taken the entry out. When the queue is
  full at that moment the call blocks, and stays blocked whatever calls other goroutines
  complete, since none of them takes anything out of the queue. \<open>Log\<close> only prints and
  queues: a producer's call that returns has changed neither the buffer nor the requests
  issued, and has no error to return.
\<close>

theorem worker_resubmits_failed_entry:
  assumes "chan_buf (q (client w)) = e # rest"
    and "log ev (t e) (s e) (w\<lparr>client := (client w)\<lparr>q := (q (client w))\<lparr>chan_buf := rest\<rparr>\<rparr>\<rparr>)
           = (w1, Some err)"
  shows "sint (FlushLimit (config (client w))) \<le> int (Size (client w)) + 1
     \<and> Lines (payload (client w1)) = Lines (payload (client w)) @ [new_logLine (client w) (t e) (s e)]
     \<and> worker_take ev w = Some (w1\<lparr>stdout := stdout w @ [PrintlnError err]\<rparr>, Some e)
     \<and> worker_iter ev w = Log (t e) (s e) (w1\<lparr>stdout := stdout w @ [PrintlnError err]\<rparr>)
     \<and> (length (chan_buf (q (client w2))) < chan_cap (q (client w2)) \<longrightarrow>
          Log (t e) (s e) w2 =
            Some (w2\<lparr>stdout := stdout w2 @ [PrintlnEntry (t e) (s e)],
                     client := (client w2)\<lparr>q := (q (client w2))
                       \<lparr>chan_buf := chan_buf (q (client w2)) @ [e]\<rparr>\<rparr>\<rparr>))
     \<and> (chan_cap (q (client w2)) \<le> length (chan_buf (q (client w2))) \<longrightarrow>
          Log (t e) (s e) w2 = None)
     \<and> (chan_cap (q (client w2)) \<le> length (chan_buf (q (client w2))) \<and> calls ev cs w2 = Some w3 \<longrightarrow>
          q (client w3) = q (client w2) \<and> Log (t e) (s e) w3 = None)
     \<and> (length (e # rest) \<le> chan_cap (q (client w)) \<longrightarrow>
          worker_iter ev w =
            Some (w1\<lparr>stdout := stdout w @ [PrintlnError err, PrintlnEntry (t e) (s e)],
                     client := (client w1)\<lparr>q := (q (client w))\<lparr>chan_buf := rest @ [e]\<rparr>\<rparr>\<rparr>))
     \<and> (Log tm msg w0 = Some w0' \<longrightarrow>
          w0' = w0\<lparr>stdout := stdout w0 @ [PrintlnEntry tm msg],
                   client := (client w0)\<lparr>q := (q (client w0))
                     \<lparr>chan_buf := chan_buf (q (client w0)) @ [\<lparr>t = tm, s = msg\<rparr>]\<rparr>\<rparr>\<rparr>
          \<and> payload (client w0') = payload (client w0) \<and> posts w0' = posts w0)
     \<and> ((Log tm msg w0 = None) = (chan_cap (q (client w0)) \<le> length (chan_buf (q (client w0)))))"
proof (intro conjI impI)
  let ?wa = "w\<lparr>client := (client w)\<lparr>q := (q (client w))\<lparr>chan_buf := rest\<rparr>,
               payload := \<lparr>Lines = Lines (payload (client w))
                             @ [new_logLine (client w) (t e) (s e)]\<rparr>\<rparr>\<rparr>"
  show lim: "sint (FlushLimit (config (client w))) \<le> int (Size (client w)) + 1"
    using assms(2) by (auto simp: log_unfold split: if_splits)
  then have fl: "Flush ev ?wa = (w1, Some err)"
    using assms(2) by (simp add: log_unfold)
  then have c1: "client w1 = client ?wa" "stdout w1 = stdout w"
    using Flush_fail_client [OF fl] by simp_all
  have w1: "w1 = w\<lparr>posts := posts w1, client := client ?wa\<rparr>"
    using c1 Flush_fail_cause [OF fl] by (cases w1, cases w) auto
  show "Lines (payload (client w1)) = Lines (payload (client w)) @ [new_logLine (client w) (t e) (s e)]"
    by (simp add: c1)
  show take: "worker_take ev w = Some (w1\<lparr>stdout := stdout w @ [PrintlnError err]\<rparr>, Some e)"
    using assms(2) by (simp add: worker_take_unfold [OF assms(1)] c1)
  show "worker_iter ev w = Log (t e) (s e) (w1\<lparr>stdout := stdout w @ [PrintlnError err]\<rparr>)"
    by (simp add: worker_iter_take take)
  show "worker_iter ev w =
            Some (w1\<lparr>stdout := stdout w @ [PrintlnError err, PrintlnEntry (t e) (s e)],
                     client := (client w1)\<lparr>q := (q (client w))\<lparr>chan_buf := rest @ [e]\<rparr>\<rparr>\<rparr>)"
    if room: "length (e # rest) \<le> chan_cap (q (client w))"
    using worker_iter_flush_fails [OF assms(1) room lim fl]
    by (subst w1) (simp add: c1)
next
  assume "length (chan_buf (q (client w2))) < chan_cap (q (client w2))"
  then show "Log (t e) (s e) w2 =
            Some (w2\<lparr>stdout := stdout w2 @ [PrintlnEntry (t e) (s e)],
                     client := (client w2)\<lparr>q := (q (client w2))
                       \<lparr>chan_buf := chan_buf (q (client w2)) @ [e]\<rparr>\<rparr>\<rparr>)"
    by (simp add: Log_unfold)
next
  assume "chan_cap (q (client w2)) \<le> length (chan_buf (q (client w2)))"
  then show "Log (t e) (s e) w2 = None"
    by (simp add: Log_unfold)
next
  assume a: "chan_cap (q (client w2)) \<le> length (chan_buf (q (client w2))) \<and> calls ev cs w2 = Some w3"
  then show same: "q (client w3) = q (client w2)"
    using calls_full_queue [of w2 ev cs w3] by simp
  with a show "Log (t e) (s e) w3 = None"
    by (simp add: Log_unfold)
next
  assume "Log tm msg w0 = Some w0'"
  then have w0': "w0' = w0\<lparr>stdout := stdout w0 @ [PrintlnEntry tm msg],
                   client := (client w0)\<lparr>q := (q (client w0))
                     \<lparr>chan_buf := chan_buf (q (client w0)) @ [\<lparr>t = tm, s = msg\<rparr>]\<rparr>\<rparr>\<rparr>"
    by (auto simp: Log_unfold split: if_splits)
  then show "w0' = w0\<lparr>stdout := stdout w0 @ [PrintlnEntry tm msg],
                   client := (client w0)\<lparr>q := (q (client w0))
                     \<lparr>chan_buf := chan_buf (q (client w0)) @ [\<lparr>t = tm, s = msg\<rparr>]\<rparr>\<rparr>\<rparr>" .
  show "payload (client w0') = payload (client w0)" "posts w0' = posts w0"
    by (simp_all add: w0')
next
  show "(Log tm msg w0 = None) = (chan_cap (q (client w0)) \<le> length (chan_buf (q (client w0))))"
    by (auto simp: Log_unfold)
qed

text \<open>
  A limit of 1, the entry \<open>a\<close> queued and the endpoint unreachable: the producer's \<open>Log\<close> had
  returned with the entry queued; the worker's round keeps the line, prints the error and
  the entry, and queues the entry again. In the run of the three worlds above the queue is
  full when the worker calls \<open>Log\<close>: the call blocks, and still does after another
  goroutine's \<open>Size\<close> and \<open>Close\<close>.
\<close>

theorem worker_resubmits_failed_entry_witness:
  "Log \<lparr>nanos = 1000000\<rparr> ''a'' (demo_world 1 [] [])
     = Some ((demo_world 1 [] [demo_entry 1000000 ''a''])
               \<lparr>stdout := [PrintlnEntry \<lparr>nanos = 1000000\<rparr> ''a'']\<rparr>)
   \<and> log env_down \<lparr>nanos = 1000000\<rparr> ''a'' (demo_world 1 [] [])
     = ((demo_world 1 [demo_line 1 ''a''] [])\<lparr>posts := [demo_request 1 [demo_line 1 ''a'']]\<rparr>,
        Some (Error ''connection refused''))
   \<and> worker_take env_down (demo_world 1 [] [demo_entry 1000000 ''a''])
     = Some ((demo_world 1 [demo_line 1 ''a''] [])
               \<lparr>stdout := [PrintlnError (Error ''connection refused'')],
                posts := [demo_request 1 [demo_line 1 ''a'']]\<rparr>,
             Some (demo_entry 1000000 ''a''))
   \<and> worker_iter env_down (demo_world 1 [] [demo_entry 1000000 ''a''])
     = Some ((demo_world 1 [demo_line 1 ''a''] [demo_entry 1000000 ''a''])
               \<lparr>stdout := [PrintlnError (Error ''connection refused''),
                           PrintlnEntry \<lparr>nanos = 1000000\<rparr> ''a''],
                posts := [demo_request 1 [demo_line 1 ''a'']]\<rparr>)
   \<and> chan_cap (q (client jam_full)) \<le> length (chan_buf (q (client jam_full)))
   \<and> calls env_down [CallSize, CallClose] jam_full
     = Some (jam_full\<lparr>posts := [demo_request 1 [demo_line 1 ''a''],
                                   demo_request 1 [demo_line 1 ''a'']]\<rparr>)
   \<and> Log \<lparr>nanos = 1000000\<rparr> ''a''
        (jam_full\<lparr>posts := [demo_request 1 [demo_line 1 ''a''],
                              demo_request 1 [demo_line 1 ''a'']]\<rparr>) = None"
proof -
  have full: "chan_cap (q (client jam_full)) \<le> length (chan_buf (q (client jam_full)))"
    by (simp add: demo_defs)
  have cs: "calls env_down [CallSize, CallClose] jam_full
     = Some (jam_full\<lparr>posts := [demo_request 1 [demo_line 1 ''a''],
                                   demo_request 1 [demo_line 1 ''a'']]\<rparr>)"
    by (simp add: demo_defs Close_def Flush_def Size_def Let_def)
  have lg: "log env_down \<lparr>nanos = 1000000\<rparr> ''a'' (demo_world 1 [] [])
     = ((demo_world 1 [demo_line 1 ''a''] [])\<lparr>posts := [demo_request 1 [demo_line 1 ''a'']]\<rparr>,
        Some (Error ''connection refused''))"
    by (simp add: demo_defs Size_def new_logLine_def div_int64_def UnixNano_def
          signed_divide_int_def log_def Flush_def Let_def)
  have pl: "Log \<lparr>nanos = 1000000\<rparr> ''a'' (demo_world 1 [] [])
     = Some ((demo_world 1 [] [demo_entry 1000000 ''a''])
               \<lparr>stdout := [PrintlnEntry \<lparr>nanos = 1000000\<rparr> ''a'']\<rparr>)"
    by (simp add: demo_defs Log_def chan_send_def Let_def)
  have buf: "chan_buf (q (client (demo_world 1 [] [demo_entry 1000000 ''a''])))
       = demo_entry 1000000 ''a'' # []"
    by (simp add: demo_defs)
  have lg': "log env_down (t (demo_entry 1000000 ''a'')) (s (demo_entry 1000000 ''a''))
       ((demo_world 1 [] [demo_entry 1000000 ''a''])
          \<lparr>client := (client (demo_world 1 [] [demo_entry 1000000 ''a'']))
             \<lparr>q := (q (client (demo_world 1 [] [demo_entry 1000000 ''a''])))\<lparr>chan_buf := []\<rparr>\<rparr>\<rparr>)
     = ((demo_world 1 [demo_line 1 ''a''] [])\<lparr>posts := [demo_request 1 [demo_line 1 ''a'']]\<rparr>,
        Some (Error ''connection refused''))"
    using lg by (simp add: demo_defs)
  note th = worker_resubmits_failed_entry [OF buf lg',
      where ?w2.0 = jam_full and cs = "[CallSize, CallClose]"
        and ?w3.0 = "jam_full\<lparr>posts := [demo_request 1 [demo_line 1 ''a''],
                                        demo_request 1 [demo_line 1 ''a'']]\<rparr>"
        and tm = "\<lparr>nanos = 1000000\<rparr>" and msg = "''a''" and ?w0.0 = "demo_world 1 [] []"
        and w0' = "(demo_world 1 [] [demo_entry 1000000 ''a''])
               \<lparr>stdout := [PrintlnEntry \<lparr>nanos = 1000000\<rparr> ''a'']\<rparr>"]
  have blocked: "Log \<lparr>nanos = 1000000\<rparr> ''a''
        (jam_full\<lparr>posts := [demo_request 1 [demo_line 1 ''a''],
                              demo_request 1 [demo_line 1 ''a'']]\<rparr>) = None"
    using th full cs by (simp add: demo_entry_def)
  have take: "worker_take env_down (demo_world 1 [] [demo_entry 1000000 ''a''])
     = Some ((demo_world 1 [demo_line 1 ''a''] [])
               \<lparr>stdout := [PrintlnError (Error ''connection refused'')],
                posts := [demo_request 1 [demo_line 1 ''a'']]\<rparr>,
             Some (demo_entry 1000000 ''a''))"
    using th by (simp add: demo_world_def)
  have iter: "worker_iter env_down (demo_world 1 [] [demo_entry 1000000 ''a''])
     = Some ((demo_world 1 [demo_line 1 ''a''] [demo_entry 1000000 ''a''])
               \<lparr>stdout := [PrintlnError (Error ''connection refused''),
                           PrintlnEntry \<lparr>nanos = 1000000\<rparr> ''a''],
                posts := [demo_request 1 [demo_line 1 ''a'']]\<rparr>)"
    using take pl by (simp add: worker_iter_take demo_defs Log_def chan_send_def Let_def)
  show ?thesis
    using pl lg take iter full cs blocked by simp
qed

text \<open>
  C5 as stated fails when producers fill the queue while the worker's round is under way,
  as in the run of the three worlds above. The worker takes \<open>a\<close>, its flush fails and it
  prints the error. Meanwhile a producer's \<open>Log\<close> of \<open>c\<close> has taken the free place. The
  worker's \<open>Log\<close> of \<open>a\<close> blocks on the full queue, and so does every later \<open>Log\<close>: \<open>a\<close> is
  not in the queue, and the worker, the only receiver, never comes back to it.
\<close>

theorem worker_resubmits_failed_entry_counterexample:
  "worker_take env_down jam_start = Some (jam_taken, Some (demo_entry 1000000 ''a''))
   \<and> Log \<lparr>nanos = 3000000\<rparr> ''c'' jam_taken = Some jam_full
   \<and> Log \<lparr>nanos = 1000000\<rparr> ''a'' jam_full = None
   \<and> Log \<lparr>nanos = 4000000\<rparr> ''d'' jam_full = None
   \<and> demo_entry 1000000 ''a'' \<notin> set (chan_buf (q (client jam_full)))"
  by (simp add: demo_defs Size_def new_logLine_def div_int64_def UnixNano_def
        signed_divide_int_def worker_take_def chan_recv_def log_def Flush_def Let_def Log_def
        chan_send_def)




end
